theory Spec2Isabelle
  imports Complex_Main "HOL-Library.AList" "HOL-Library.Log_Nat"
begin

text \<open>
  A model of \<open>spb/cli_core/commands/label_data.py\<close>, the bulk transfer commands of the
  command line client: the three task functions that a worker pool runs once per item
  (\<open>_upload_asset\<close>, \<open>_update_label\<close>, \<open>_download_worker\<close>), the drivers of class
  \<open>LabelData\<close> that build the shared result lists, start the pool and print the
  summary, and the paged error table. Functions keep the names of the source without
  the leading underscore; line numbers refer to the source file. The remote client, the
  file system, the terminal and the loggers are not part of the file: their answers are
  parameters of the model (record \<open>env\<close>), and what the code does to them is recorded
  in a trace of events.
\<close>

section \<open>Python values\<close>

subsection \<open>Dictionaries\<close>

text \<open>
  A Python \<open>dict\<close> keeps its keys in insertion order, and the error reporter consumes
  its table in that order, so a dictionary is an association list whose keys are
  pairwise distinct. \<open>d[k] = v\<close> is \<^const>\<open>AList.update\<close> (the value is replaced in
  place when the key is there, and appended otherwise), \<open>d[k]\<close> and \<open>k in d\<close> are
  \<^const>\<open>map_of\<close>, \<open>len(d)\<close> is \<^const>\<open>length\<close>.
\<close>

type_synonym 'v dict = "(string \<times> 'v) list"

definition keys :: "'v dict \<Rightarrow> string set" where
  "keys d = fst ` set d"

definition wf_dict :: "'v dict \<Rightarrow> bool" where
  "wf_dict d = distinct (map fst d)"

subsection \<open>Exceptions\<close>

text \<open>
  The exceptions the code can meet. \<open>Fault m\<close> is any exception raised by a
  collaborator (the remote client, the file system, the HTTP client) whose string form
  is \<open>m\<close>. All of them are subclasses of \<open>Exception\<close>, so \<open>except Exception\<close>
  catches every one.
\<close>

datatype exn =
    ZeroDivisionError
  | OverflowError
  | IndexError
  | ValueError string
  | TypeError string
  | KeyError string
  | AttributeError string
  | Fault string

text \<open>
  A name between apostrophes, as Python's messages write the name of a type, an attribute
  or a keyword.
\<close>

definition quoted :: "string \<Rightarrow> string" where
  "quoted name = CHR 0x27 # name @ [CHR 0x27]"

text \<open>\<open>str(e)\<close>; the string form of a \<open>KeyError\<close> is the \<open>repr\<close> of its key.\<close>

fun str :: "exn \<Rightarrow> string" where
  "str ZeroDivisionError = ''division by zero''"
| "str OverflowError = ''integer division result too large for a float''"
| "str IndexError = ''list index out of range''"
| "str (ValueError m) = m"
| "str (TypeError m) = m"
| "str (KeyError k) = [CHR 0x27] @ k @ [CHR 0x27]"
| "str (AttributeError m) = m"
| "str (Fault m) = m"

subsection \<open>Floating point\<close>

text \<open>
  The code divides integers with \<open>/\<close>, which in Python 3 is true division: the result
  is the IEEE 754 double nearest to the exact quotient (ties to even). A double is
  modelled by the rational number it denotes. \<open>ilog2 q\<close> is the binary exponent of a
  positive \<open>q\<close>, that is \<open>\<lfloor>log\<^sub>2 q\<rfloor>\<close>; \<open>fl\<close> rounds to 53 significant bits, with the
  fixed exponent \<open>-1074\<close> in the subnormal range.
\<close>

definition ilog2 :: "rat \<Rightarrow> int" where
  "ilog2 q = (let (a, b) = quotient_of q; d = bitlen a - bitlen b
              in if 2 powi d \<le> q then d else d - 1)"

definition round_half_even :: "rat \<Rightarrow> int" where
  "round_half_even x =
     (let f = \<lfloor>x\<rfloor>; r = x - of_int f
      in if r < 1 / 2 then f else if 1 / 2 < r then f + 1 else if even f then f else f + 1)"

definition fl :: "rat \<Rightarrow> rat" where
  "fl x = (if x = 0 then 0
           else let e = max (ilog2 \<bar>x\<bar> - 52) (- 1074);
                    m = round_half_even (\<bar>x\<bar> / 2 powi e)
                in sgn x * of_int m * 2 powi e)"

text \<open>
  \<open>a / b\<close> on integers: \<open>ZeroDivisionError\<close> for a zero divisor, \<open>OverflowError\<close> when
  the rounded quotient is beyond the largest double.
\<close>

definition py_truediv :: "int \<Rightarrow> int \<Rightarrow> exn + rat" where
  "py_truediv a b =
     (if b = 0 then Inl ZeroDivisionError
      else let r = fl (of_int a / of_int b)
           in if 2 ^ 1024 \<le> \<bar>r\<bar> then Inl OverflowError else Inr r)"

text \<open>\<open>int(x)\<close> truncates towards zero; \<open>math.ceil(x)\<close> is the ceiling.\<close>

definition py_int :: "rat \<Rightarrow> int" where
  "py_int x = (if 0 \<le> x then \<lfloor>x\<rfloor> else \<lceil>x\<rceil>)"

text \<open>
  \<open>round(x, 2)\<close> on a double: the decimal with two places nearest to the exact value
  of \<open>x\<close> (ties to even), converted back to the nearest double.
\<close>

definition py_round2 :: "rat \<Rightarrow> rat" where
  "py_round2 x = fl (of_int (round_half_even (x * 100)) / 100)"

text \<open>
  A number that a summary line prints: the integer literal \<open>100\<close> of the guarded
  branch, or a double.
\<close>

datatype pynum = PyInt int | PyFloat rat

text \<open>
  \<open>round(count / total * 100, 2)\<close>. The division raises for \<open>total = 0\<close>. The product
  of a double and 100 is rounded again; it stays far below the overflow threshold for
  every count and total of a batch that fits in memory, so the model has no infinity.
\<close>

definition percentage :: "int \<Rightarrow> int \<Rightarrow> exn + pynum" where
  "percentage count n =
     (case py_truediv count n of
        Inl e \<Rightarrow> Inl e
      | Inr x \<Rightarrow> Inr (PyFloat (py_round2 (fl (x * 100)))))"

section \<open>Collaborators\<close>

subsection \<open>Labels and update payloads\<close>

text \<open>
  What \<open>json.load\<close> returns: \<open>None\<close>, a \<open>bool\<close>, an \<open>int\<close>, a \<open>float\<close>, a \<open>str\<close>, a
  \<open>list\<close> or a \<open>dict\<close>.
\<close>

datatype json =
    JNull
  | JBool bool
  | JInt int
  | JFloat rat
  | JStr string
  | JArr "json list"
  | JObj "(string \<times> json) list"

text \<open>
  The fields of a remote \<open>Label\<close> record that the code reads. A tag is opaque; its
  data form is asked from the collaborator (\<open>tag.get_datas(tag)\<close>). \<open>label_toJson\<close> is
  the result of the serialisation method \<open>toJson()\<close>.
\<close>

type_synonym tag = string

record Label =
  label_id :: string
  label_dataset :: string
  label_data_key :: string
  label_data_url :: string
  label_result :: json
  label_tags :: "tag list"
  label_toJson :: string

text \<open>The dictionary \<open>label\<close> that \<open>_update_label\<close> builds at lines 278 to 283.\<close>

record payload =
  p_id :: string
  p_project_id :: string
  p_tags :: json
  p_result :: json

text \<open>The dictionary \<open>asset_image\<close> that \<open>upload_data\<close> builds at lines 38 to 43
  (the field \<open>asset_x\<close> is its entry \<open>x\<close>).\<close>

record asset_image =
  asset_file :: string
  asset_file_name :: string
  asset_data_key :: string
  asset_dataset :: string

subsection \<open>Observable effects\<close>

text \<open>
  What a message of the \<open>simple\<close> logger carries: a string, or the \<open>str\<close> of an
  error dictionary (left unrendered).
\<close>

datatype logged = Text string | Repr "string dict"

text \<open>
  Every interaction with a collaborator is recorded, in order, in a trace: the remote
  commands, the file and HTTP operations, the log records and the console output.
  \<open>DescribeLabel project_id (dataset, data_key) page_size page\<close> is a \<open>describe_label\<close>
  command; the pair is \<^const>\<open>None\<close> when the option has the project id only.
  \<open>Table columns rows\<close> is one printed page of the error table. \<open>SummaryLine what
  success count ratio errors\<close> is one line of the result summary.
\<close>

datatype event =
    CreateData string asset_image
  | DescribeLabel string "(string \<times> string) option" int int
  | UpdateLabel payload
  | ReadJson string
  | WriteFile string string
  | MakeDirs string
  | HttpGet string string
  | SimpleLogError string logged
  | Confirm
  | GetChar
  | Print string
  | SummaryLine string int int pynum nat
  | Table "string list" "string list list"
  | Prompt int int
  | ConsoleLog string

subsection \<open>The environment of a run\<close>

text \<open>
  The answers of the collaborators, which are not part of this file: the remote client
  \<open>spb.run\<close> (a command answers with a value or raises), the directory scans of
  \<open>spb.cli_core.utils\<close>, the file system, the HTTP client, the operator at the terminal
  and the configuration of the two loggers. \<open>describe\<close> answers with the labels of the
  page (an element can be \<open>None\<close>) and the total count. \<open>warning_enabled\<close> says whether
  the root logger is enabled for the level \<open>WARNING\<close> (it is, unless configured
  otherwise); \<open>simple_log_file\<close> and \<open>full_log_file\<close> are the \<open>baseFilename\<close> of the
  first handler of the \<open>simple\<close> logger and of the root logger.
\<close>

record env =
  create_data :: "string \<Rightarrow> asset_image \<Rightarrow> exn option"
  describe :: "string \<Rightarrow> (string \<times> string) option \<Rightarrow> int \<Rightarrow> int \<Rightarrow> exn + (Label option list \<times> int)"
  update :: "payload \<Rightarrow> exn + Label"
  get_datas :: "tag \<Rightarrow> exn + json"
  image_files :: "string \<Rightarrow> string dict"
  label_files :: "string \<Rightarrow> string list"
  isfile :: "string \<Rightarrow> bool"
  load_json :: "string \<Rightarrow> exn + json"
  write_file :: "string \<Rightarrow> string \<Rightarrow> exn option"
  makedirs :: "string \<Rightarrow> exn option"
  fetch :: "string \<Rightarrow> string \<Rightarrow> exn option"
  confirm :: bool
  getchar :: "nat \<Rightarrow> char"
  warning_enabled :: bool
  simple_log_file :: string
  full_log_file :: string

subsection \<open>The state a task works on\<close>

text \<open>
  A task function receives a reference \<open>result\<close> to the shared dictionary. Its model
  works on the dictionary referred to and on the trace, and returns the exception that
  leaves the function, if any (\<^const>\<open>None\<close> for a normal return), with the new state.
\<close>

record 'v task_state =
  result :: "'v dict"
  trace :: "event list"

definition emit :: "event \<Rightarrow> 'v task_state \<Rightarrow> 'v task_state" where
  "emit ev s = s\<lparr>trace := trace s @ [ev]\<rparr>"

section \<open>Per-item task functions\<close>

subsection \<open>\<open>_set_error_result\<close> (lines 301 to 303)\<close>

definition set_error_result :: "string \<Rightarrow> string \<Rightarrow> string task_state \<Rightarrow> string task_state" where
  "set_error_result key message s =
     emit (SimpleLogError key (Text message)) (s\<lparr>result := AList.update key message (result s)\<rparr>)"

subsection \<open>\<open>_upload_asset\<close> (lines 240 to 249)\<close>

definition upload_asset ::
  "env \<Rightarrow> string \<times> asset_image \<Rightarrow> string task_state \<Rightarrow> exn option \<times> string task_state" where
  "upload_asset env args s =
     (case args of (project_id, asset_image) \<Rightarrow>
        let s1 = emit (CreateData project_id asset_image) s
        in case create_data env project_id asset_image of
             None \<Rightarrow> (None, s1)
           | Some e \<Rightarrow> (None, set_error_result (asset_data_key asset_image) (str e) s1))"

subsection \<open>\<open>_update_label\<close> (lines 252 to 299)\<close>

text \<open>\<open>s.split(".")\<close> and \<open>".".join(ws)\<close>.\<close>

fun split_dot :: "string \<Rightarrow> string list" where
  "split_dot [] = [[]]"
| "split_dot (c # cs) =
     (if c = CHR ''.'' then [] # split_dot cs
      else case split_dot cs of [] \<Rightarrow> [[c]] | w # ws \<Rightarrow> (c # w) # ws)"

fun join_dot :: "string list \<Rightarrow> string" where
  "join_dot [] = []"
| "join_dot [w] = w"
| "join_dot (w # ws) = w @ ''.'' @ join_dot ws"

text \<open>
  Line 267: \<open>described_labels[0] if described_labels and described_labels[0] else
  None\<close>. An empty answer and a first element that is \<open>None\<close> both give \<open>None\<close>.
\<close>

definition first_label :: "Label option list \<Rightarrow> Label option" where
  "first_label described_labels = (case described_labels of [] \<Rightarrow> None | l # _ \<Rightarrow> l)"

text \<open>
  \<open>json_data[k]\<close> for a string \<open>k\<close>: a dictionary without the key raises \<open>KeyError\<close>,
  any other JSON value raises \<open>TypeError\<close>, with the message of Python 3.11.
\<close>

fun getitem :: "json \<Rightarrow> string \<Rightarrow> exn + json" where
  "getitem (JObj kvs) k = (case map_of kvs k of None \<Rightarrow> Inl (KeyError k) | Some v \<Rightarrow> Inr v)"
| "getitem (JArr vs) k = Inl (TypeError ''list indices must be integers or slices, not str'')"
| "getitem (JStr v) k = Inl (TypeError (''string indices must be integers, not '' @ quoted ''str''))"
| "getitem (JInt v) k = Inl (TypeError (quoted ''int'' @ '' object is not subscriptable''))"
| "getitem (JFloat v) k = Inl (TypeError (quoted ''float'' @ '' object is not subscriptable''))"
| "getitem (JBool v) k = Inl (TypeError (quoted ''bool'' @ '' object is not subscriptable''))"
| "getitem JNull k = Inl (TypeError (quoted ''NoneType'' @ '' object is not subscriptable''))"

text \<open>
  \<open>k in json_data\<close>. The code asks this at lines 290 and 292 only, after the subscript of
  line 287 has succeeded, that is on a dictionary.
\<close>

fun has_key :: "json \<Rightarrow> string \<Rightarrow> bool" where
  "has_key (JObj kvs) k = (map_of kvs k \<noteq> None)"
| "has_key v k = False"

text \<open>The list comprehension of line 281: the first tag whose extraction raises stops it.\<close>

fun collect :: "('a \<Rightarrow> exn + 'b) \<Rightarrow> 'a list \<Rightarrow> exn + 'b list" where
  "collect f [] = Inr []"
| "collect f (x # xs) =
     (case f x of
        Inl e \<Rightarrow> Inl e
      | Inr y \<Rightarrow> (case collect f xs of Inl e \<Rightarrow> Inl e | Inr ys \<Rightarrow> Inr (y # ys)))"

text \<open>Lines 290 to 293: the local \<open>result\<close> and \<open>tags\<close> replace the remote ones.\<close>

definition overlay :: "json \<Rightarrow> payload \<Rightarrow> payload" where
  "overlay json_data p =
     (let p1 = (case (has_key json_data ''result'', getitem json_data ''result'') of
                  (True, Inr v) \<Rightarrow> p\<lparr>p_result := v\<rparr>
                | _ \<Rightarrow> p)
      in case (has_key json_data ''tags'', getitem json_data ''tags'') of
           (True, Inr v) \<Rightarrow> p1\<lparr>p_tags := v\<rparr>
         | _ \<Rightarrow> p1)"

text \<open>
  Lines 278 to 299, the part of \<open>_update_label\<close> after the identity check. The payload
  is built outside both \<open>try\<close> blocks, so an exception of a tag extraction leaves the
  function; everything from line 284 on is inside the second \<open>try\<close>.
\<close>

definition apply_local_label ::
  "env \<Rightarrow> string \<Rightarrow> string \<Rightarrow> string \<Rightarrow> Label \<Rightarrow> string task_state
     \<Rightarrow> exn option \<times> string task_state" where
  "apply_local_label env label_path project_id data_key described_label s =
     (case collect (get_datas env) (label_tags described_label) of
        Inl e \<Rightarrow> (Some e, s)
      | Inr datas \<Rightarrow>
          let p = \<lparr>p_id = label_id described_label, p_project_id = project_id,
                   p_tags = JArr datas, p_result = label_result described_label\<rparr>;
              s1 = emit (ReadJson label_path) s
          in case load_json env label_path of
               Inl e \<Rightarrow> (None, set_error_result data_key (str e) s1)
             | Inr json_data \<Rightarrow>
                 (case getitem json_data ''result'' of
                    Inl e \<Rightarrow> (None, set_error_result data_key (str e) s1)
                  | Inr r \<Rightarrow>
                      if r = JNull then (None, s1)
                      else
                        let p' = overlay json_data p;
                            s2 = emit (UpdateLabel p') s1
                        in case update env p' of
                             Inl e \<Rightarrow> (None, set_error_result data_key (str e) s2)
                           | Inr updated \<Rightarrow>
                               let s3 = emit (WriteFile label_path (label_toJson updated)) s2
                               in case write_file env label_path (label_toJson updated) of
                                    Some e \<Rightarrow> (None, set_error_result data_key (str e) s3)
                                  | None \<Rightarrow> (None, s3)))"

definition update_label ::
  "env \<Rightarrow> string \<times> string \<times> string \<Rightarrow> string task_state \<Rightarrow> exn option \<times> string task_state" where
  "update_label env args s =
     (case args of (label_path, project_id, dataset) \<Rightarrow>
        let data_key = join_dot (butlast (split_dot label_path))
        in if \<not> isfile env label_path
           then (None, set_error_result data_key ''Label json file is not existed.'' s)
           else
             let s1 = emit (DescribeLabel project_id (Some (dataset, data_key)) 1 1) s
             in case describe env project_id (Some (dataset, data_key)) 1 1 of
                  Inl e \<Rightarrow> (None, set_error_result data_key (str e) s1)
                | Inr (described_labels, n) \<Rightarrow>
                    (case first_label described_labels of
                       None \<Rightarrow> (None, set_error_result data_key ''Label cannot be described.'' s1)
                     | Some described_label \<Rightarrow>
                         if label_data_key described_label \<noteq> data_key
                            \<and> label_dataset described_label \<noteq> dataset
                         then (None, set_error_result data_key
                                 ''Described label does not match to upload.'' s1)
                         else apply_local_label env label_path project_id data_key
                                described_label s1))"

subsection \<open>\<open>_download_worker\<close> (lines 202 to 237)\<close>

definition LABEL_DESCRIBE_PAGE_SIZE :: int where
  "LABEL_DESCRIBE_PAGE_SIZE = 10"

text \<open>\<open>os.path.join(a, b)\<close> and \<open>os.path.dirname(p)\<close> of the POSIX path module.\<close>

definition path_join :: "string \<Rightarrow> string \<Rightarrow> string" where
  "path_join a b =
     (if b \<noteq> [] \<and> hd b = CHR ''/'' then b
      else if a = [] \<or> last a = CHR ''/'' then a @ b
      else a @ ''/'' @ b)"

definition dirname :: "string \<Rightarrow> string" where
  "dirname p =
     (let head = rev (dropWhile (\<lambda>c. c \<noteq> CHR ''/'') (rev p))
      in if head \<noteq> [] \<and> \<not> list_all (\<lambda>c. c = CHR ''/'') head
         then rev (dropWhile (\<lambda>c. c = CHR ''/'') (rev head))
         else head)"

text \<open>
  Lines 210 and 211: the local path of a label, with one leading separator of the
  identity key removed; and the key of its error record (lines 231, 234 and 237).
\<close>

definition local_path :: "string \<Rightarrow> Label \<Rightarrow> string" where
  "local_path directory_path lbl =
     path_join directory_path
       (if label_data_key lbl \<noteq> [] \<and> hd (label_data_key lbl) = CHR ''/''
        then path_join (label_dataset lbl) (tl (label_data_key lbl))
        else path_join (label_dataset lbl) (label_data_key lbl))"

definition error_key :: "Label \<Rightarrow> string" where
  "error_key lbl = label_dataset lbl @ ''/'' @ label_data_key lbl"

text \<open>
  The body of the loop over the labels of a page (lines 209 to 237). Directory creation
  is outside the two \<open>try\<close> blocks. The label file is written first and the data file is
  fetched next, each in a \<open>try\<close> of its own. \<open>label_error\<close> and \<open>data_error\<close> of the
  source are references to the one dictionary \<open>error\<close>, so the log records of lines 234
  and 237 both carry the final \<open>error\<close>; they are written through a throw-away
  dictionary, and the shared one is written at line 231 only. Serialising the label is
  taken to succeed; an exception of it would be one of the label write.
\<close>

definition download_label ::
  "env \<Rightarrow> string \<Rightarrow> Label \<Rightarrow> string dict task_state \<Rightarrow> exn option \<times> string dict task_state" where
  "download_label env directory_path lbl s =
     (let path = local_path directory_path lbl;
          s1 = emit (MakeDirs (dirname path)) s
      in case makedirs env (dirname path) of
           Some e \<Rightarrow> (Some e, s1)
         | None \<Rightarrow>
             let s2 = emit (WriteFile (path @ ''.json'') (label_toJson lbl)) s1;
                 label_failure = write_file env (path @ ''.json'') (label_toJson lbl);
                 error1 = (case label_failure of None \<Rightarrow> [] | Some e \<Rightarrow> [(''label'', str e)]);
                 s3 = emit (HttpGet (label_data_url lbl) path) s2;
                 data_failure = fetch env (label_data_url lbl) path;
                 error = (case data_failure of
                            None \<Rightarrow> error1
                          | Some e \<Rightarrow> AList.update ''data'' (str e) error1)
             in if length error > 0
                then
                  let s4 = s3\<lparr>result := AList.update (error_key lbl) error (result s3)\<rparr>;
                      s5 = (if label_failure \<noteq> None
                            then emit (SimpleLogError (error_key lbl) (Repr error)) s4 else s4);
                      s6 = (if data_failure \<noteq> None
                            then emit (SimpleLogError (error_key lbl) (Repr error)) s5 else s5)
                  in (None, s6)
                else (None, s3))"

text \<open>
  The loop of line 208. For an element of the page that is \<open>None\<close>, the first
  attribute that line 210 reads is \<open>data_key\<close> (the condition of the conditional
  expression), which \<open>None\<close> does not have.
\<close>

fun download_labels ::
  "env \<Rightarrow> string \<Rightarrow> Label option list \<Rightarrow> string dict task_state
     \<Rightarrow> exn option \<times> string dict task_state" where
  "download_labels env directory_path [] s = (None, s)"
| "download_labels env directory_path (None # ls) s =
     (Some (AttributeError (quoted ''NoneType'' @ '' object has no attribute ''
                              @ quoted ''data_key'')), s)"
| "download_labels env directory_path (Some lbl # ls) s =
     (case download_label env directory_path lbl s of
        (Some e, s') \<Rightarrow> (Some e, s')
      | (None, s') \<Rightarrow> download_labels env directory_path ls s')"

text \<open>The describe command of line 205 is outside every \<open>try\<close> block.\<close>

definition download_worker ::
  "env \<Rightarrow> string \<times> int \<times> string \<Rightarrow> string dict task_state
     \<Rightarrow> exn option \<times> string dict task_state" where
  "download_worker env args s =
     (case args of (project_id, page_idx, directory_path) \<Rightarrow>
        let s1 = emit (DescribeLabel project_id None LABEL_DESCRIBE_PAGE_SIZE (page_idx + 1)) s
        in case describe env project_id None LABEL_DESCRIBE_PAGE_SIZE (page_idx + 1) of
             Inl e \<Rightarrow> (Some e, s1)
           | Inr (labels, n) \<Rightarrow> download_labels env directory_path labels s1)"

section \<open>The error table (\<open>LabelData._print_error_table\<close>, lines 144 to 198)\<close>

subsection \<open>Merging the result stores (lines 145 to 157)\<close>

text \<open>
  A row of the table is the inner dictionary \<open>{'data': ..., 'label': ...}\<close>; Python's
  \<open>None\<close> is \<^const>\<open>None\<close>. An argument that is not a dictionary (the default \<open>None\<close>)
  is \<^const>\<open>None\<close> as well, a dictionary \<open>d\<close> is \<open>Some d\<close>.
\<close>

record error_row =
  row_data :: "string option"
  row_label :: "string option"

text \<open>Lines 148 to 151: the loop over the keys of \<open>data_results\<close>.\<close>

fun add_data_rows :: "string dict \<Rightarrow> error_row dict \<Rightarrow> error_row dict" where
  "add_data_rows [] results = results"
| "add_data_rows ((key, v) # rest) results =
     add_data_rows rest (AList.update key \<lparr>row_data = Some v, row_label = None\<rparr> results)"

text \<open>Lines 153 to 157: the loop over the keys of \<open>label_results\<close>.\<close>

fun add_label_rows :: "string dict \<Rightarrow> error_row dict \<Rightarrow> error_row dict" where
  "add_label_rows [] results = results"
| "add_label_rows ((key, v) # rest) results =
     add_label_rows rest
       (case map_of results key of
          Some r \<Rightarrow> AList.update key (r\<lparr>row_label := Some v\<rparr>) results
        | None \<Rightarrow> AList.update key \<lparr>row_data = None, row_label = Some v\<rparr> results)"

definition merge_results :: "string dict option \<Rightarrow> string dict option \<Rightarrow> error_row dict" where
  "merge_results data_results label_results =
     (let results = (case data_results of None \<Rightarrow> [] | Some d \<Rightarrow> add_data_rows d [])
      in case label_results of None \<Rightarrow> results | Some l \<Rightarrow> add_label_rows l results)"

subsection \<open>Paging through the table (lines 159 to 198)\<close>

text \<open>
  \<open>not next(iter(results), None)\<close>: true for an empty table, and also when the first
  key is the empty string, which Python takes for false.
\<close>

definition no_first_key :: "'v dict \<Rightarrow> bool" where
  "no_first_key results = (case results of [] \<Rightarrow> True | (key, v) # rest \<Rightarrow> key = [])"

text \<open>\<open>f"{v if v else '-'}"\<close>: \<open>None\<close> and the empty message are shown as a dash.\<close>

definition cell :: "string option \<Rightarrow> string" where
  "cell v = (case v of None \<Rightarrow> ''-'' | Some m \<Rightarrow> if m = [] then ''-'' else m)"

definition table_columns :: "string dict option \<Rightarrow> string dict option \<Rightarrow> string list" where
  "table_columns data_results label_results =
     [''FILE NAME''] @ (if data_results \<noteq> None then [''DATA UPLOAD''] else [])
       @ (if label_results \<noteq> None then [''LABEL UPLOAD''] else [])"

definition table_row ::
  "string dict option \<Rightarrow> string dict option \<Rightarrow> string \<times> error_row \<Rightarrow> string list" where
  "table_row data_results label_results kr =
     (case kr of (key, r) \<Rightarrow>
        if data_results \<noteq> None \<and> label_results \<noteq> None
        then [key, cell (row_data r), cell (row_label r)]
        else if data_results \<noteq> None then [key, cell (row_data r)]
        else [key, cell (row_label r)])"

text \<open>
  The loop \<open>for _ in range(10)\<close> of lines 172 to 186: it takes the first key of the
  working copy, stops at a key that is false, and deletes every key it shows. The
  result is the rows shown and the rows left.
\<close>

fun take_rows :: "nat \<Rightarrow> error_row dict \<Rightarrow> (string \<times> error_row) list \<times> error_row dict" where
  "take_rows 0 results = ([], results)"
| "take_rows (Suc n) [] = ([], [])"
| "take_rows (Suc n) ((key, r) # rest) =
     (if key = [] then ([], (key, r) # rest)
      else case take_rows n rest of (shown, left) \<Rightarrow> ((key, r) # shown, left))"

lemma take_rows_length: "length (snd (take_rows n results)) \<le> length results"
  by (induction n results rule: take_rows.induct) (auto split: prod.splits)

lemma take_rows_progress:
  assumes "take_rows (Suc n) results = (shown, left)" and "\<not> no_first_key left"
  shows "length left < length results"
proof (cases results)
  case Nil
  with assms show ?thesis by (simp add: no_first_key_def)
next
  case (Cons kr rest)
  obtain key r where kr: "kr = (key, r)" by (cases kr)
  show ?thesis
  proof (cases "key = []")
    case True
    with assms Cons kr show ?thesis by (auto simp: no_first_key_def)
  next
    case False
    with assms Cons kr have "left = snd (take_rows n rest)"
      by (simp split: prod.splits)
    then have "length left \<le> length rest" by (simp add: take_rows_length)
    with Cons show ?thesis by simp
  qed
qed

lemma take_rows_progress_page:
  assumes "(shown, left) = take_rows 10 results" and "\<not> no_first_key left"
  shows "length left < length results"
proof -
  have "Suc 9 = (10::nat)" by simp
  then have "take_rows (Suc 9) results = (shown, left)"
    using assms(1) by (simp only:)
  then show ?thesis using assms(2) by (rule take_rows_progress)
qed

text \<open>
  \<open>math.ceil(len(results)/10)\<close>, line 163. The length of a dictionary in memory is
  far below the range where the division overflows.
\<close>

definition error_pages :: "nat \<Rightarrow> int" where
  "error_pages n = \<lceil>fl (of_nat n / 10)\<rceil>"

text \<open>
  The loop \<open>while True\<close> of lines 164 to 195; \<open>i\<close> counts the keys read from the
  terminal so far. The variable \<open>page\<close> of the source is never incremented, so every
  prompt shows page 1.
\<close>

function report_pages ::
  "env \<Rightarrow> string dict option \<Rightarrow> string dict option \<Rightarrow> int \<Rightarrow> nat \<Rightarrow> error_row dict
     \<Rightarrow> event list" where
  "report_pages env data_results label_results page_length i results =
     (case take_rows (Suc 9) results of (shown, left) \<Rightarrow>
        Table (table_columns data_results label_results)
              (map (table_row data_results label_results) shown) #
        (if no_first_key left then []
         else Prompt 1 page_length # GetChar #
              (if getchar env i = CHR ''q'' \<or> getchar env i = CHR ''Q'' then []
               else report_pages env data_results label_results page_length (Suc i) left)))"
  by pat_completeness auto
termination
  by (relation "measure (\<lambda>(env, data_results, label_results, page_length, i, results).
        length results)")
     (auto dest: take_rows_progress_page)

declare report_pages.simps [simp del]

definition print_error_table :: "env \<Rightarrow> string dict option \<Rightarrow> string dict option \<Rightarrow> event list" where
  "print_error_table env data_results label_results =
     (let results = merge_results data_results label_results
      in if no_first_key results then []
         else Print ''** Error Table **'' #
              report_pages env data_results label_results (error_pages (length results)) 0 results
              @ [ConsoleLog ''Check the log file for more details'',
                 ConsoleLog (''- '' @ simple_log_file env),
                 ConsoleLog (''- '' @ full_log_file env)])"

section \<open>The batch drivers (class \<open>LabelData\<close>)\<close>

subsection \<open>Shared dictionaries and the worker pool\<close>

text \<open>
  The result lists hold references to dictionaries, and what a claim says about them
  depends on which references are the same. So the dictionaries live in a store,
  \<open>objects\<close>, under their identities, and a list of results is a list of identities.
  \<open>out\<close> is the trace of the run.
\<close>

record 'v world =
  objects :: "nat \<Rightarrow> 'v dict"
  next_id :: nat
  out :: "event list"

definition say :: "event list \<Rightarrow> 'v world \<Rightarrow> 'v world" where
  "say evs w = w\<lparr>out := out w @ evs\<rparr>"

text \<open>\<open>manager.dict()\<close> (and the literal \<open>{}\<close>): a new, empty dictionary.\<close>

definition new_dict :: "'v world \<Rightarrow> nat \<times> 'v world" where
  "new_dict w =
     (next_id w, w\<lparr>objects := (objects w)(next_id w := []), next_id := Suc (next_id w)\<rparr>)"

text \<open>
  \<open>manager.list([manager.dict()] * n)\<close>: \<open>manager.dict()\<close> is evaluated once, and the
  list repeats the one reference \<open>n\<close> times.
\<close>

definition shared_results :: "nat \<Rightarrow> 'v world \<Rightarrow> nat list \<times> 'v world" where
  "shared_results n w = (case new_dict w of (p, w') \<Rightarrow> (replicate n p, w'))"

text \<open>\<open>results[0]\<close>.\<close>

definition first_result :: "nat list \<Rightarrow> exn + nat" where
  "first_result results = (case results of [] \<Rightarrow> Inl IndexError | p # ps \<Rightarrow> Inr p)"

text \<open>A task function run on the dictionary that its argument \<open>result\<close> refers to.\<close>

definition run_task ::
  "('v task_state \<Rightarrow> exn option \<times> 'v task_state) \<Rightarrow> nat \<Rightarrow> 'v world \<Rightarrow> exn option \<times> 'v world" where
  "run_task task p w =
     (case task \<lparr>result = objects w p, trace = out w\<rparr> of
        (r, s) \<Rightarrow> (r, w\<lparr>objects := (objects w)(p := result s), out := trace s\<rparr>))"

text \<open>
  \<open>list(tqdm.tqdm(p.imap(f, tasks), total=n))\<close>. The pool gives the tasks to its four
  worker processes; the model runs them one after the other in the order of the list,
  which is one of the possible schedules. \<open>imap\<close> yields the outcomes in the order of
  the tasks and raises the exception of a task in the caller when its turn comes, which
  ends the \<open>with\<close> block and terminates the pool.
\<close>

fun imap ::
  "('a \<Rightarrow> 'v task_state \<Rightarrow> exn option \<times> 'v task_state) \<Rightarrow> ('a \<times> nat) list \<Rightarrow> 'v world
     \<Rightarrow> exn option \<times> 'v world" where
  "imap f [] w = (None, w)"
| "imap f ((args, p) # rest) w =
     (case run_task (f args) p w of
        (Some e, w') \<Rightarrow> (Some e, w')
      | (None, w') \<Rightarrow> imap f rest w')"

text \<open>
  The pattern of lines 35 to 50, 56 to 61 and 81 to 87: a shared result list and a pool
  for a batch that is not empty, and the list \<open>[{}]\<close> for an empty one. \<open>banner\<close> is
  what the driver prints between the two.
\<close>

definition run_batch ::
  "('a \<Rightarrow> 'v task_state \<Rightarrow> exn option \<times> 'v task_state) \<Rightarrow> event list \<Rightarrow> 'a list \<Rightarrow> 'v world
     \<Rightarrow> exn option \<times> nat list \<times> 'v world" where
  "run_batch f banner items w =
     (if length items \<noteq> 0
      then case shared_results (length items) w of
             (results, w1) \<Rightarrow>
               (case imap f (zip items results) (say banner w1) of
                  (r, w2) \<Rightarrow> (r, results, w2))
      else case new_dict w of (p, w1) \<Rightarrow> (None, [p], w1))"

subsection \<open>Summaries\<close>

record project =
  proj_id :: string
  proj_name :: string

text \<open>
  \<open>round(count / n * 100, 2) if guard else 100\<close>, the ratio of lines 65, 70 and 91.
\<close>

definition guarded_percentage :: "bool \<Rightarrow> int \<Rightarrow> int \<Rightarrow> exn + pynum" where
  "guarded_percentage guard count n = (if guard then percentage count n else Inr (PyInt 100))"

text \<open>
  One summary line: the success count, the ratio (whose computation can raise, before
  anything is printed) and the error count.
\<close>

definition summary_line ::
  "string \<Rightarrow> int \<Rightarrow> int \<Rightarrow> exn + pynum \<Rightarrow> nat \<Rightarrow> 'v world \<Rightarrow> exn option \<times> 'v world" where
  "summary_line what success n ratio errors w =
     (case ratio of
        Inl e \<Rightarrow> (Some e, w)
      | Inr r \<Rightarrow> (None, say [SummaryLine what success n r errors] w))"

subsection \<open>\<open>LabelData.upload_data\<close> (lines 28 to 74)\<close>

text \<open>Lines 63 to 74. The guard of both ratios is that the store is not empty.\<close>

definition upload_data_summary ::
  "env \<Rightarrow> bool \<Rightarrow> nat \<Rightarrow> nat \<Rightarrow> nat list \<Rightarrow> nat list \<Rightarrow> string world
     \<Rightarrow> exn option \<times> string world" where
  "upload_data_summary env include_label n_data n_labels data_results label_results w =
     (let w1 = say [Print ''** Result Summary **''] w
      in case first_result data_results of
           Inl e \<Rightarrow> (Some e, w1)
         | Inr dp \<Rightarrow>
             let data_store = objects w1 dp;
                 success_data_count = int n_data - int (length data_store)
             in case summary_line ''upload data'' success_data_count (int n_data)
                       (guarded_percentage (length data_store \<noteq> 0)
                          success_data_count (int n_data))
                       (length data_store) w1 of
                  (Some e, w2) \<Rightarrow> (Some e, w2)
                | (None, w2) \<Rightarrow>
                    if include_label
                    then case first_result label_results of
                           Inl e \<Rightarrow> (Some e, w2)
                         | Inr lp \<Rightarrow>
                             let label_store = objects w2 lp;
                                 success_label_count = int n_labels - int (length label_store)
                             in case summary_line ''upload labels'' success_label_count
                                       (int n_labels)
                                       (guarded_percentage (length label_store \<noteq> 0)
                                          success_label_count (int n_labels))
                                       (length label_store) w2 of
                                  (Some e, w3) \<Rightarrow> (Some e, w3)
                                | (None, w3) \<Rightarrow>
                                    (None, say (print_error_table env (Some data_store)
                                                  (Some label_store)) w3)
                    else (None, say (print_error_table env (Some data_store) None) w2))"

definition upload_data ::
  "env \<Rightarrow> project \<Rightarrow> string \<Rightarrow> string \<Rightarrow> bool \<Rightarrow> bool \<Rightarrow> string world
     \<Rightarrow> exn option \<times> string world" where
  "upload_data env project dataset_name directory_path include_label is_forced w =
     (let imgs_path = image_files env directory_path
      in if \<not> is_forced \<and> \<not> confirm env then (None, say [Confirm] w)
         else
           let w0 = (if is_forced then w else say [Confirm] w);
               asset_images =
                 map (\<lambda>(key, f). \<lparr>asset_file = f, asset_file_name = key,
                                   asset_data_key = key, asset_dataset = dataset_name\<rparr>)
                     imgs_path
           in case run_batch (upload_asset env) [Print ''Uploading data:'']
                     (map (\<lambda>a. (proj_id project, a)) asset_images) w0 of
                (Some e, data_results, w1) \<Rightarrow> (Some e, w1)
              | (None, data_results, w1) \<Rightarrow>
                  let labels_path = label_files env directory_path
                  in case (if include_label
                           then run_batch (update_label env) []
                                  (map (\<lambda>p. (p, proj_id project, dataset_name)) labels_path)
                                  (say [Print ''Uploading labels:''] w1)
                           else (None, [], w1)) of
                       (Some e, label_results, w2) \<Rightarrow> (Some e, w2)
                     | (None, label_results, w2) \<Rightarrow>
                         upload_data_summary env include_label (length asset_images)
                           (length labels_path) data_results label_results w2)"

subsection \<open>\<open>LabelData.upload_label\<close> (lines 76 to 93)\<close>

text \<open>The guard of the ratio at line 91 is that the batch is not empty.\<close>

definition upload_label ::
  "env \<Rightarrow> project \<Rightarrow> string \<Rightarrow> string \<Rightarrow> bool \<Rightarrow> string world \<Rightarrow> exn option \<times> string world" where
  "upload_label env project dataset_name directory_path is_forced w =
     (let labels_path = label_files env directory_path
      in if \<not> is_forced \<and> \<not> confirm env then (None, say [Confirm] w)
         else
           let w0 = (if is_forced then w else say [Confirm] w)
           in case run_batch (update_label env) []
                     (map (\<lambda>p. (p, proj_id project, dataset_name)) labels_path) w0 of
                (Some e, label_results, w1) \<Rightarrow> (Some e, w1)
              | (None, label_results, w1) \<Rightarrow>
                  let w2 = say [Print ''** Result Summary **''] w1
                  in case first_result label_results of
                       Inl e \<Rightarrow> (Some e, w2)
                     | Inr lp \<Rightarrow>
                         let label_store = objects w2 lp;
                             success_label_count =
                               int (length labels_path) - int (length label_store)
                         in case summary_line ''upload labels'' success_label_count
                                   (int (length labels_path))
                                   (guarded_percentage (length labels_path \<noteq> 0)
                                      success_label_count (int (length labels_path)))
                                   (length label_store) w2 of
                              (Some e, w3) \<Rightarrow> (Some e, w3)
                            | (None, w3) \<Rightarrow>
                                (None, say (print_error_table env None (Some label_store)) w3))"

subsection \<open>\<open>LabelData._count_labels\<close> (lines 96 to 108)\<close>

text \<open>
  The handler of line 106 calls \<open>logger.warning('Fail to describe_label',
  exec_info=True)\<close>: the keyword is \<open>exec_info\<close>, not \<open>exc_info\<close>. \<open>Logger.warning\<close>
  hands its keywords to \<open>Logger._log\<close> when the logger is enabled for \<open>WARNING\<close>, and
  \<open>_log\<close> has no parameter of that name, so the call raises \<open>TypeError\<close> (with the
  message of Python 3.10 and later) inside the handler and line 107 is not reached. When the logger is not enabled for \<open>WARNING\<close>
  the call returns at once. No log record is written in either case.
\<close>

definition count_labels :: "env \<Rightarrow> string \<Rightarrow> 'v world \<Rightarrow> (exn + int) \<times> 'v world" where
  "count_labels env project_id w =
     (let w1 = say [DescribeLabel project_id None 1 1] w
      in case describe env project_id None 1 1 of
           Inr (labels, n) \<Rightarrow> (Inr n, w1)
         | Inl e \<Rightarrow>
             if warning_enabled env
             then (Inl (TypeError (''Logger._log() got an unexpected keyword argument ''
                                   @ quoted ''exec_info'')), w1)
             else (Inr 0, w1))"

subsection \<open>\<open>LabelData.download\<close> (lines 111 to 142)\<close>

text \<open>Line 114: the number of pages, computed with the true division \<open>/\<close>.\<close>

definition page_length :: "int \<Rightarrow> exn + int" where
  "page_length label_count =
     (if label_count mod LABEL_DESCRIBE_PAGE_SIZE = 0
      then (case py_truediv label_count LABEL_DESCRIBE_PAGE_SIZE of
              Inl e \<Rightarrow> Inl e
            | Inr x \<Rightarrow> Inr (py_int x))
      else (case py_truediv label_count LABEL_DESCRIBE_PAGE_SIZE of
              Inl e \<Rightarrow> Inl e
            | Inr x \<Rightarrow> Inr (py_int x + 1)))"

text \<open>
  Lines 124 to 131: the error dictionaries of the shared store are split by sub-kind.
  The pair is \<open>(data_results, label_results)\<close>.
\<close>

fun split_results ::
  "string dict dict \<Rightarrow> string dict \<times> string dict \<Rightarrow> string dict \<times> string dict" where
  "split_results [] acc = acc"
| "split_results ((key, error) # rest) (data_results, label_results) =
     split_results rest
       ((case map_of error ''data'' of
           Some m \<Rightarrow> AList.update key m data_results
         | None \<Rightarrow> data_results),
        (case map_of error ''label'' of
           Some m \<Rightarrow> AList.update key m label_results
         | None \<Rightarrow> label_results))"

text \<open>
  Lines 114 to 131, the branch \<open>label_count != 0\<close>. The outcome is an exception, or
  \<^const>\<open>None\<close> when the operator declines and \<open>download\<close> returns, or the two result
  dictionaries. \<open>[manager.dict()] * page_length\<close> and \<open>range(page_length)\<close> are empty for
  a page count that is not positive. For a negative page count \<open>list(...)\<close> of line 121
  asks the progress bar for its length, which is the negative \<open>total\<close>, and raises
  \<open>ValueError\<close>; for the page count 0 the pool runs no task and \<open>results[0]\<close> raises
  \<open>IndexError\<close>.
\<close>

definition download_pages ::
  "env \<Rightarrow> project \<Rightarrow> string \<Rightarrow> bool \<Rightarrow> int \<Rightarrow> string dict world
     \<Rightarrow> (exn + (string dict \<times> string dict) option) \<times> string dict world" where
  "download_pages env project directory_path is_forced label_count w =
     (case page_length label_count of
        Inl e \<Rightarrow> (Inl e, w)
      | Inr pages \<Rightarrow>
          if \<not> is_forced \<and> \<not> confirm env then (Inr None, say [Confirm] w)
          else
            let w0 = (if is_forced then w else say [Confirm] w)
            in case shared_results (nat pages) w0 of
                 (results, w1) \<Rightarrow>
                   if pages < 0
                   then (Inl (ValueError ''__len__() should return >= 0''), w1)
                   else
                   (case imap (download_worker env)
                           (zip (map (\<lambda>i. (proj_id project, int i, directory_path))
                                   [0 ..< nat pages])
                                results) w1 of
                      (Some e, w2) \<Rightarrow> (Inl e, w2)
                    | (None, w2) \<Rightarrow>
                        (case first_result results of
                           Inl e \<Rightarrow> (Inl e, w2)
                         | Inr p \<Rightarrow> (Inr (Some (split_results (objects w2 p) ([], []))), w2))))"

text \<open>Lines 136 to 142. Neither ratio has a guard.\<close>

definition download_summary ::
  "env \<Rightarrow> int \<Rightarrow> string dict \<Rightarrow> string dict \<Rightarrow> 'v world \<Rightarrow> exn option \<times> 'v world" where
  "download_summary env label_count data_results label_results w =
     (let w1 = say [Print ''** Result Summary **''] w;
          label_success_count = label_count - int (length label_results)
      in case summary_line ''download labels'' label_success_count label_count
                (percentage label_success_count label_count) (length label_results) w1 of
           (Some e, w2) \<Rightarrow> (Some e, w2)
         | (None, w2) \<Rightarrow>
             let data_success_count = label_count - int (length data_results)
             in case summary_line ''download data'' data_success_count label_count
                       (percentage data_success_count label_count) (length data_results) w2 of
                  (Some e, w3) \<Rightarrow> (Some e, w3)
                | (None, w3) \<Rightarrow>
                    (None, say (print_error_table env (Some data_results) (Some label_results))
                             w3))"

definition download ::
  "env \<Rightarrow> project \<Rightarrow> string \<Rightarrow> bool \<Rightarrow> string dict world \<Rightarrow> exn option \<times> string dict world" where
  "download env project directory_path is_forced w =
     (case count_labels env (proj_id project) w of
        (Inl e, w0) \<Rightarrow> (Some e, w0)
      | (Inr label_count, w0) \<Rightarrow>
          (case (if label_count \<noteq> 0
                 then download_pages env project directory_path is_forced label_count w0
                 else (Inr (Some ([], [])), w0)) of
             (Inl e, w1) \<Rightarrow> (Some e, w1)
           | (Inr None, w1) \<Rightarrow> (None, w1)
           | (Inr (Some (data_results, label_results)), w1) \<Rightarrow>
               download_summary env label_count data_results label_results w1))"

section \<open>Sample runs\<close>

text \<open>
  A concrete environment in which every collaborator succeeds: one image, one label
  file, one remote label. The failing runs below change single answers of it.
\<close>

definition sample_label :: Label where
  "sample_label =
     \<lparr>label_id = ''L1'', label_dataset = ''ds'', label_data_key = ''a.png'',
      label_data_url = ''http://host/a.png'', label_result = JObj [], label_tags = [''t''],
      label_toJson = ''{}''\<rparr>"

text \<open>A label of another dataset whose identity key starts with a separator.\<close>

definition rooted_label :: Label where
  "rooted_label = sample_label\<lparr>label_dataset := ''cats'', label_data_key := ''/x/1.png''\<rparr>"

definition sample_env :: env where
  "sample_env =
     \<lparr>create_data = (\<lambda>project_id asset. None),
      describe = (\<lambda>project_id option page_size page. Inr ([Some sample_label], 1)),
      update = (\<lambda>p. Inr sample_label),
      get_datas = (\<lambda>t. Inr (JStr t)),
      image_files = (\<lambda>directory. [(''a.png'', ''dir/a.png'')]),
      label_files = (\<lambda>directory. [''a.png.json'']),
      isfile = (\<lambda>path. True),
      load_json = (\<lambda>path. Inr (JObj [(''result'', JObj [])])),
      write_file = (\<lambda>path content. None),
      makedirs = (\<lambda>path. None),
      fetch = (\<lambda>url path. None),
      confirm = True,
      getchar = (\<lambda>i. CHR ''n''),
      warning_enabled = True,
      simple_log_file = ''simple.log'',
      full_log_file = ''spb.log''\<rparr>"

definition sample_project :: project where
  "sample_project = \<lparr>proj_id = ''P1'', proj_name = ''demo''\<rparr>"

definition empty_state :: "'v task_state" where
  "empty_state = \<lparr>result = [], trace = []\<rparr>"

definition empty_world :: "'v world" where
  "empty_world = \<lparr>objects = (\<lambda>p. []), next_id = 0, out = []\<rparr>"

text \<open>Both transfers of a label fail.\<close>

definition failing_transfers :: env where
  "failing_transfers =
     sample_env\<lparr>write_file := \<lambda>path content. Some (Fault ''disk full''),
                fetch := \<lambda>url path. Some (Fault ''404'')\<rparr>"

text \<open>
  A project of 25 labels whose pages cannot be fetched: the probe answers, every page
  request raises.
\<close>

definition unreachable_pages :: env where
  "unreachable_pages =
     sample_env\<lparr>describe := \<lambda>project_id option page_size page.
        if page_size = 1 then Inr ([Some sample_label], 25)
        else Inl (Fault ''connection reset'')\<rparr>"

text \<open>A project without labels: the probe reports the total 0.\<close>

definition no_labels :: env where
  "no_labels = sample_env\<lparr>describe := \<lambda>project_id option page_size page. Inr ([], 0)\<rparr>"

text \<open>The remote store cannot be reached: every describe command raises.\<close>

definition probe_down :: env where
  "probe_down =
     sample_env\<lparr>describe := \<lambda>project_id option page_size page. Inl (Fault ''timed out'')\<rparr>"

text \<open>
  A remote store that accepts the image \<open>a.png\<close> only and serves no data file, a
  directory with the only label file \<open>a.png.json\<close>, and a project of 25 labels with one
  label on each page.
\<close>

definition partly_failing :: env where
  "partly_failing =
     sample_env\<lparr>create_data := \<lambda>project_id asset.
                  if asset_data_key asset = ''a.png'' then None else Some (Fault ''refused''),
                isfile := \<lambda>path. path = ''a.png.json'',
                describe := \<lambda>project_id option page_size page.
                  Inr ([Some (sample_label\<lparr>label_data_key :=
                          if option \<noteq> None then ''a.png''
                          else if page = 1 then ''x'' else if page = 2 then ''y'' else ''z''\<rparr>)],
                       25),
                fetch := \<lambda>url path. Some (Fault ''404'')\<rparr>"

definition sample_assets :: "(string \<times> asset_image) list" where
  "sample_assets =
     map (\<lambda>key. (''P1'', \<lparr>asset_file = ''dir/'' @ key, asset_file_name = key,
                           asset_data_key = key, asset_dataset = ''ds''\<rparr>))
       [''a.png'', ''b.png'', ''c.png'']"

definition sample_label_tasks :: "(string \<times> string \<times> string) list" where
  "sample_label_tasks = [(''a.png.json'', ''P1'', ''ds''), (''b.png.json'', ''P1'', ''ds'')]"

section \<open>Properties of the floating point model\<close>

lemma round_half_even_error: "\<bar>of_int (round_half_even x) - x\<bar> \<le> 1 / 2"
proof -
  have "of_int \<lfloor>x\<rfloor> \<le> x" and "x < of_int \<lfloor>x\<rfloor> + 1" by linarith+
  then show ?thesis
    by (auto simp: round_half_even_def Let_def)
qed

lemma round_half_even_of_int: "round_half_even (of_int n) = n"
  by (simp add: round_half_even_def)

lemma ilog2_lower:
  assumes "0 < q"
  shows "2 powi (ilog2 q) \<le> q"
proof -
  obtain a b where ab: "quotient_of q = (a, b)" by (cases "quotient_of q")
  then have b: "0 < b" by (rule quotient_of_denom_pos)
  from ab have q: "q = of_int a / of_int b" by (rule quotient_of_div)
  with assms b have a: "0 < a" by (simp add: zero_less_divide_iff)
  define d where "d = bitlen a - bitlen b"
  show ?thesis
  proof (cases "(2::rat) powi d \<le> q")
    case True
    with ab show ?thesis by (simp add: ilog2_def d_def)
  next
    case False
    with ab have il: "ilog2 q = d - 1" by (simp add: ilog2_def d_def)
    from bitlen_bounds [OF a] have "2 ^ nat (bitlen a - 1) \<le> a" by simp
    then have "(of_int (2 ^ nat (bitlen a - 1)) :: rat) \<le> of_int a" by (simp only: of_int_le_iff)
    then have la: "(2::rat) ^ nat (bitlen a - 1) \<le> of_int a" by simp
    from bitlen_bounds [OF b] have "b < 2 ^ nat (bitlen b)" by simp
    then have "(of_int b :: rat) < of_int (2 ^ nat (bitlen b))" by (simp only: of_int_less_iff)
    then have lb: "(of_int b :: rat) < 2 ^ nat (bitlen b)" by simp
    have a1: "1 \<le> bitlen a" using a by (auto simp: bitlen_alt_def)
    have b0: "0 \<le> bitlen b" by (rule bitlen_nonneg)
    have pa: "(2::rat) ^ nat (bitlen a - 1) = 2 powi (bitlen a - 1)"
      using a1 by (simp add: power_int_def)
    have pb: "(2::rat) ^ nat (bitlen b) = 2 powi (bitlen b)"
      using b0 by (simp add: power_int_def)
    have "(2::rat) powi (d - 1) = 2 powi (bitlen a - 1) / 2 powi (bitlen b)"
      by (simp add: d_def power_int_diff)
    also have "\<dots> \<le> of_int a / 2 powi (bitlen b)"
      using la pa by (simp add: divide_right_mono)
    also have "\<dots> \<le> of_int a / of_int b"
      using lb pb a b by (simp add: frac_le)
    finally show ?thesis using il q by simp
  qed
qed

lemma fl_error:
  assumes "0 < x"
  shows "\<bar>fl x - x\<bar> \<le> max (x / 2 ^ 53) (2 powi (- 1075))"
proof -
  define e where "e = max (ilog2 x - 52) (- 1074)"
  define m where "m = round_half_even (x / 2 powi e)"
  have p: "(0::rat) < 2 powi e" by simp
  from assms have fl: "fl x = of_int m * 2 powi e"
    by (simp add: fl_def e_def m_def Let_def)
  have "\<bar>of_int m - x / 2 powi e\<bar> \<le> 1 / 2"
    unfolding m_def by (rule round_half_even_error)
  then have "\<bar>of_int m - x / 2 powi e\<bar> * 2 powi e \<le> 1 / 2 * 2 powi e"
    using p by (simp only: mult_le_cancel_right_pos)
  moreover have "\<bar>of_int m - x / 2 powi e\<bar> * 2 powi e = \<bar>of_int m * 2 powi e - x\<bar>"
  proof -
    have "\<bar>of_int m - x / 2 powi e\<bar> * 2 powi e = \<bar>(of_int m - x / 2 powi e) * 2 powi e\<bar>"
      using p by (simp add: abs_mult)
    also have "(of_int m - x / 2 powi e) * 2 powi e = of_int m * 2 powi e - x"
      using p by (simp add: field_simps)
    finally show ?thesis .
  qed
  ultimately have err: "\<bar>fl x - x\<bar> \<le> 2 powi e / 2" using fl by simp
  show ?thesis
  proof (cases "- 1074 \<le> ilog2 x - 52")
    case True
    then have "e = ilog2 x - 52" by (simp add: e_def)
    then have "(2::rat) powi e = 2 powi (ilog2 x) / 2 ^ 52"
      by (simp add: power_int_diff)
    also have "\<dots> \<le> x / 2 ^ 52"
      using ilog2_lower [OF assms] by (simp add: divide_right_mono)
    finally have "(2::rat) powi e / 2 \<le> x / 2 ^ 53" by simp
    with err have "\<bar>fl x - x\<bar> \<le> x / 2 ^ 53" by (rule order_trans)
    then show ?thesis by (rule max.coboundedI1)
  next
    case False
    then have "e = - 1074" by (simp add: e_def)
    then have "(2::rat) powi e / 2 = 2 powi (- 1075)"
      by (simp add: power_int_minus_divide)
    with err have "\<bar>fl x - x\<bar> \<le> 2 powi (- 1075)" by (simp only:)
    then show ?thesis by (rule max.coboundedI2)
  qed
qed

lemma fl_of_int_exact:
  assumes "0 \<le> n" and "n < 2 ^ 53"
  shows "fl (of_int n) = of_int n"
proof (cases "n = 0")
  case True
  then show ?thesis by (simp add: fl_def)
next
  case False
  with assms have pos: "(0::rat) < of_int n" by simp
  define e where "e = max (ilog2 (of_int n) - 52) (- 1074)"
  have "(2::rat) powi (ilog2 (of_int n)) \<le> of_int n" by (rule ilog2_lower [OF pos])
  also have "(of_int n :: rat) < 2 ^ 53"
  proof -
    from assms have "(of_int n :: rat) < of_int (2 ^ 53)" by (simp only: of_int_less_iff)
    then show ?thesis by simp
  qed
  finally have "(2::rat) powi (ilog2 (of_int n)) < 2 powi 53" by simp
  then have "ilog2 (of_int n) < 53" by (rule power_int_le_imp_less_exp [rotated]) simp_all
  then have e: "e \<le> 0" by (simp add: e_def)
  then have "(of_int n :: rat) / 2 powi e = of_int (n * 2 ^ nat (- e))"
    by (simp add: power_int_def field_simps)
  then have "round_half_even (of_int n / 2 powi e) = n * 2 ^ nat (- e)"
    by (simp only: round_half_even_of_int)
  moreover have "(of_int (n * 2 ^ nat (- e)) :: rat) * 2 powi e = of_int n"
    using e by (simp add: power_int_def field_simps)
  ultimately show ?thesis
    using pos by (simp add: fl_def e_def [symmetric] Let_def del: of_int_mult of_int_power)
qed


lemma smallest_step_small: "(2::rat) powi (- 1075) < 1 / 10"
proof -
  have "(2::rat) powi (- 1075) \<le> 2 powi (- 4)"
    by (rule power_int_increasing) simp_all
  also have "\<dots> < 1 / 10" by (simp add: power_int_minus_divide)
  finally show ?thesis .
qed

lemma fl_tenth:
  assumes "0 \<le> a" and "a < 2 ^ 53"
  shows "0 \<le> fl (of_int a / 10) \<and> fl (of_int a / 10) < 2 ^ 53 \<and> \<lfloor>fl (of_int a / 10)\<rfloor> = a div 10"
proof (cases "a mod 10 = 0")
  case True
  then have a: "a = 10 * (a div 10)" by presburger
  have "(of_int a :: rat) = 10 * of_int (a div 10)"
    by (subst a) (simp only: of_int_mult of_int_numeral)
  then have x: "(of_int a :: rat) / 10 = of_int (a div 10)" by simp
  from assms have n: "0 \<le> a div 10" "a div 10 < 2 ^ 53" by simp_all
  have "fl (of_int (a div 10)) = of_int (a div 10)"
    using n by (rule fl_of_int_exact)
  moreover have "(of_int (a div 10) :: rat) < of_int (2 ^ 53)"
    using n(2) by (simp only: of_int_less_iff)
  ultimately show ?thesis using n(1) x by simp
next
  case False
  define n where "n = a div 10"
  define x :: rat where "x = of_int a / 10"
  from False assms have bounds: "10 * n + 1 \<le> a" "a \<le> 10 * n + 9" "0 \<le> n"
    unfolding n_def by presburger+
  have "(of_int (10 * n + 1) :: rat) \<le> of_int a" and "(of_int a :: rat) \<le> of_int (10 * n + 9)"
    using bounds by (simp_all only: of_int_le_iff)
  then have xl: "of_int n + 1 / 10 \<le> x" and xu: "x \<le> of_int n + 9 / 10"
    by (simp_all add: x_def)
  from bounds xl have pos: "0 < x" by simp
  have "(of_int a :: rat) < of_int (2 ^ 53)"
    using assms by (simp only: of_int_less_iff)
  then have xs: "x / 2 ^ 53 < 1 / 10" by (simp add: x_def)
  have "\<bar>fl x - x\<bar> \<le> max (x / 2 ^ 53) (2 powi (- 1075))"
    by (rule fl_error [OF pos])
  also have "\<dots> < 1 / 10" using xs smallest_step_small by (simp only: max_less_iff_conj)
  finally have err: "\<bar>fl x - x\<bar> < 1 / 10" .
  from err xl have lo: "of_int n < fl x" by linarith
  from err xu have hi: "fl x < of_int n + 1" by linarith
  from lo hi have "\<lfloor>fl x\<rfloor> = n" by linarith
  moreover from lo bounds have "0 \<le> fl x" by simp
  moreover have "fl x < 2 ^ 53"
  proof -
    from bounds assms have "n + 1 \<le> 2 ^ 53" by simp
    then have "(of_int (n + 1) :: rat) \<le> of_int (2 ^ 53)" by (simp only: of_int_le_iff)
    with hi show ?thesis by simp
  qed
  ultimately show ?thesis by (simp add: x_def n_def)
qed

lemma py_truediv_tenth:
  assumes "0 \<le> a" and "a < 2 ^ 53"
  shows "\<exists>x. py_truediv a 10 = Inr x \<and> py_int x = a div 10"
proof -
  from fl_tenth [OF assms]
  have f: "0 \<le> fl (of_int a / 10)" "fl (of_int a / 10) < 2 ^ 53"
    "\<lfloor>fl (of_int a / 10)\<rfloor> = a div 10" by simp_all
  have "(2::rat) ^ 53 \<le> 2 ^ 1024" by (rule power_increasing) simp_all
  with f have "\<not> 2 ^ 1024 \<le> \<bar>fl (of_int a / 10)\<bar>" by linarith
  with f show ?thesis
    by (simp add: py_truediv_def py_int_def Let_def del: power_numeral)
qed


section \<open>The page count of a download\<close>

lemma ceiling_tenth:
  "\<lceil>of_int n / (10 :: rat)\<rceil> = n div 10 + (if n mod 10 = 0 then 0 else 1)"
proof -
  have "\<lceil>of_int n / (of_int 10 :: rat)\<rceil> = - ((- n) div 10)"
    by (simp only: ceiling_divide_eq_div)
  also have "\<dots> = n div 10 + (if n mod 10 = 0 then 0 else 1)"
    by (simp add: zdiv_zminus1_eq_if)
  finally show ?thesis by simp
qed

lemma page_length_below_2_53:
  assumes "0 \<le> label_count" and "label_count < 2 ^ 53"
  shows "page_length label_count =
           Inr (label_count div 10 + (if label_count mod 10 = 0 then 0 else 1))"
proof -
  from py_truediv_tenth [OF assms] obtain x
    where x: "py_truediv label_count 10 = Inr x" "py_int x = label_count div 10" by blast
  then show ?thesis
    by (simp add: page_length_def LABEL_DESCRIBE_PAGE_SIZE_def)
qed

text \<open>
  Claim C6, as the code has it. For every total from 0 up to (not including) \<open>2\<^sup>5\<^sup>3\<close> the
  page count of line 114 is \<open>ceil(total / 10)\<close>: the floored quotient, plus one exactly
  when \<open>total mod 10\<close> is not 0. (The bound is where the double nearest to \<open>total / 10\<close>
  still has the integer part of the exact quotient.)
\<close>

theorem page_length_ceiling:
  assumes "0 \<le> label_count" and "label_count < 2 ^ 53"
  shows "page_length label_count = Inr \<lceil>of_int label_count / (10 :: rat)\<rceil> \<and>
         page_length label_count =
           Inr (label_count div 10 + (if label_count mod 10 = 0 then 0 else 1))"
  unfolding ceiling_tenth using page_length_below_2_53 [OF assms] by simp

theorem page_length_ceiling_witness:
  "(0::int) \<le> 25 \<and> (25::int) < 2 ^ 53 \<and> page_length 25 = Inr 3 \<and>
   (0::int) \<le> 20 \<and> (20::int) < 2 ^ 53 \<and> page_length 20 = Inr 2 \<and> page_length 0 = Inr 0"
  using page_length_ceiling [of 25, THEN conjunct2]
        page_length_ceiling [of 20, THEN conjunct2]
        page_length_ceiling [of 0, THEN conjunct2]
  by simp

text \<open>
  Claim C6 as stated, for every non-negative total, fails: for the total
  90071992547409935 the exact quotient is 9007199254740993.5, the nearest double is
  9007199254740994, and the code adds one to it, while the ceiling is 9007199254740994.
\<close>

theorem page_length_not_ceiling_of_large_total:
  "(0::int) \<le> 90071992547409935 \<and>
   page_length 90071992547409935 = Inr 9007199254740995 \<and>
   \<lceil>90071992547409935 / (10 :: rat)\<rceil> = 9007199254740994 \<and>
   page_length 90071992547409935 \<noteq> Inr \<lceil>90071992547409935 / (10 :: rat)\<rceil>"
proof -
  have nearest: "fl (18014398509481987 / 2) = 9007199254740994"
    by code_simp
  have pages: "page_length 90071992547409935 = Inr 9007199254740995"
    by (simp add: page_length_def LABEL_DESCRIBE_PAGE_SIZE_def py_truediv_def Let_def nearest
          py_int_def)
  have exact: "\<lceil>90071992547409935 / (10 :: rat)\<rceil> = 9007199254740994"
    by code_simp
  from pages exact show ?thesis by simp
qed

section \<open>Properties of the merge\<close>

lemma add_data_rows_distinct:
  "distinct (map fst results) \<Longrightarrow> distinct (map fst (add_data_rows d results))"
  by (induction d results rule: add_data_rows.induct) (simp_all add: distinct_update)

lemma add_label_rows_distinct:
  "distinct (map fst results) \<Longrightarrow> distinct (map fst (add_label_rows l results))"
  by (induction l results rule: add_label_rows.induct)
     (simp_all add: distinct_update split: option.splits)

lemma add_data_rows_lookup:
  "distinct (map fst d) \<Longrightarrow>
   map_of (add_data_rows d results) k =
     (case map_of d k of
        Some v \<Rightarrow> Some \<lparr>row_data = Some v, row_label = None\<rparr>
      | None \<Rightarrow> map_of results k)"
proof (induction d results rule: add_data_rows.induct)
  case (1 results)
  show ?case by simp
next
  case (2 key v rest results)
  from "2.prems" have fresh: "map_of rest key = None"
    by (simp add: map_of_eq_None_iff)
  from "2.prems" have "distinct (map fst rest)" by simp
  with "2.IH" fresh show ?case
    by (simp add: update_conv' split: option.splits)
qed

lemma add_label_rows_lookup:
  "distinct (map fst l) \<Longrightarrow>
   map_of (add_label_rows l results) k =
     (case map_of l k of
        Some v \<Rightarrow>
          Some (case map_of results k of
                  Some r \<Rightarrow> r\<lparr>row_label := Some v\<rparr>
                | None \<Rightarrow> \<lparr>row_data = None, row_label = Some v\<rparr>)
      | None \<Rightarrow> map_of results k)"
proof (induction l results rule: add_label_rows.induct)
  case (1 results)
  show ?case by simp
next
  case (2 key v rest results)
  from "2.prems" have fresh: "map_of rest key = None"
    by (simp add: map_of_eq_None_iff)
  from "2.prems" have "distinct (map fst rest)" by simp
  with "2.IH" fresh show ?case
    by (simp add: update_conv' split: option.splits)
qed

lemma merge_results_lookup:
  assumes "wf_dict d" and "wf_dict l"
  shows "map_of (merge_results (Some d) (Some l)) k =
           (if k \<in> keys d \<union> keys l then Some \<lparr>row_data = map_of d k, row_label = map_of l k\<rparr>
            else None)"
proof -
  have d: "(map_of d k = None) = (k \<notin> keys d)" and l: "(map_of l k = None) = (k \<notin> keys l)"
    by (simp_all add: keys_def map_of_eq_None_iff)
  show ?thesis
    using assms d l
    by (auto simp: merge_results_def wf_dict_def add_label_rows_lookup add_data_rows_lookup
             split: option.splits)
qed

lemma merge_results_wf: "wf_dict (merge_results data_results label_results)"
  by (simp add: merge_results_def wf_dict_def add_label_rows_distinct add_data_rows_distinct
           split: option.splits)

lemma merge_results_keys:
  assumes "wf_dict d" and "wf_dict l"
  shows "keys (merge_results (Some d) (Some l)) = keys d \<union> keys l"
proof -
  have "k \<in> keys (merge_results (Some d) (Some l)) \<longleftrightarrow> k \<in> keys d \<union> keys l" for k
  proof -
    have "k \<in> keys (merge_results (Some d) (Some l)) \<longleftrightarrow>
            map_of (merge_results (Some d) (Some l)) k \<noteq> None"
      by (simp add: keys_def map_of_eq_None_iff)
    then show ?thesis
      by (simp add: merge_results_lookup [OF assms])
  qed
  then show ?thesis by blast
qed

lemma wf_dict_length: "wf_dict d \<Longrightarrow> length d = card (keys d)"
proof -
  assume "wf_dict d"
  then have "card (set (map fst d)) = length (map fst d)"
    unfolding wf_dict_def by (rule distinct_card)
  then show ?thesis by (simp add: keys_def)
qed

lemma wf_dict_in_set: "wf_dict d \<Longrightarrow> (k, r) \<in> set d \<Longrightarrow> map_of d k = Some r"
  by (simp add: wf_dict_def)

text \<open>
  Claim C7. For two result stores (dictionaries, so with pairwise distinct keys) the merged
  table has pairwise distinct keys, and its keys are the union of the keys of the two
  stores: one row for each key of the union. The row of a key that is in both stores
  holds the data error and the label error, both present. When the stores share no key,
  the table has \<open>len(data store) + len(label store)\<close> rows and every row has exactly one
  of its two sub-errors present, the other being \<open>None\<close>.
\<close>

theorem merged_error_table_union:
  assumes "wf_dict d" and "wf_dict l"
  shows "wf_dict (merge_results (Some d) (Some l)) \<and>
         keys (merge_results (Some d) (Some l)) = keys d \<union> keys l \<and>
         (\<forall>k. k \<in> keys d \<inter> keys l \<longrightarrow>
            (\<exists>dv lv. map_of d k = Some dv \<and> map_of l k = Some lv \<and>
               map_of (merge_results (Some d) (Some l)) k =
                 Some \<lparr>row_data = Some dv, row_label = Some lv\<rparr>)) \<and>
         (keys d \<inter> keys l = {} \<longrightarrow>
            length (merge_results (Some d) (Some l)) = length d + length l \<and>
            (\<forall>(k, r) \<in> set (merge_results (Some d) (Some l)).
               (row_data r = None) \<noteq> (row_label r = None)))"
proof -
  let ?M = "merge_results (Some d) (Some l)"
  note lookup = merge_results_lookup [OF assms]
  have wf: "wf_dict ?M" by (rule merge_results_wf)
  have ks: "keys ?M = keys d \<union> keys l" by (rule merge_results_keys [OF assms])
  have both: "\<exists>dv lv. map_of d k = Some dv \<and> map_of l k = Some lv \<and>
                map_of ?M k = Some \<lparr>row_data = Some dv, row_label = Some lv\<rparr>"
    if "k \<in> keys d \<inter> keys l" for k
  proof -
    from that obtain dv lv where "map_of d k = Some dv" and "map_of l k = Some lv"
      by (auto simp: keys_def dest!: weak_map_of_SomeI)
    with that show ?thesis by (simp add: lookup)
  qed
  have disj: "length ?M = length d + length l \<and>
              (\<forall>(k, r) \<in> set ?M. (row_data r = None) \<noteq> (row_label r = None))"
    if empty: "keys d \<inter> keys l = {}"
  proof
    have "finite (keys d)" and "finite (keys l)" by (simp_all add: keys_def)
    with empty have "card (keys d \<union> keys l) = card (keys d) + card (keys l)"
      by (simp add: card_Un_disjoint)
    with wf ks assms show "length ?M = length d + length l"
      by (simp add: wf_dict_length)
  next
    have "(row_data r = None) \<noteq> (row_label r = None)" if mem: "(k, r) \<in> set ?M" for k r
    proof -
      from mem have k: "k \<in> keys d \<union> keys l"
        using ks by (force simp: keys_def)
      from wf mem have "map_of ?M k = Some r" by (rule wf_dict_in_set)
      with k have r: "r = \<lparr>row_data = map_of d k, row_label = map_of l k\<rparr>"
        by (simp add: lookup)
      have "(map_of d k = None) = (k \<notin> keys d)" and "(map_of l k = None) = (k \<notin> keys l)"
        by (simp_all add: keys_def map_of_eq_None_iff)
      with k empty r show ?thesis by auto
    qed
    then show "\<forall>(k, r) \<in> set ?M. (row_data r = None) \<noteq> (row_label r = None)" by auto
  qed
  from wf ks both disj show ?thesis by blast
qed

theorem merged_error_table_union_witness:
  "wf_dict [(''a.png'', ''timeout''), (''b.png'', ''refused'')] \<and>
   wf_dict [(''b.png'', ''no label''), (''c.png'', ''bad json'')] \<and>
   wf_dict [(''c.png'', ''bad json'')] \<and>
   ''b.png'' \<in> keys [(''a.png'', ''timeout''), (''b.png'', ''refused'')]
              \<inter> keys [(''b.png'', ''no label''), (''c.png'', ''bad json'')] \<and>
   map_of (merge_results (Some [(''a.png'', ''timeout''), (''b.png'', ''refused'')])
                         (Some [(''b.png'', ''no label''), (''c.png'', ''bad json'')])) ''b.png''
     = Some \<lparr>row_data = Some ''refused'', row_label = Some ''no label''\<rparr> \<and>
   keys [(''a.png'', ''timeout''), (''b.png'', ''refused'')] \<inter> keys [(''c.png'', ''bad json'')] = {} \<and>
   length (merge_results (Some [(''a.png'', ''timeout''), (''b.png'', ''refused'')])
                         (Some [(''c.png'', ''bad json'')])) = 3"
  using merged_error_table_union
          [of "[(''a.png'', ''timeout''), (''b.png'', ''refused'')]"
              "[(''b.png'', ''no label''), (''c.png'', ''bad json'')]"]
        merged_error_table_union
          [of "[(''a.png'', ''timeout''), (''b.png'', ''refused'')]" "[(''c.png'', ''bad json'')]"]
  by (simp add: wf_dict_def keys_def)

section \<open>The error reporter\<close>

lemma report_pages_starts_with_table:
  "\<exists>rows evs. report_pages env data_results label_results n i results =
      Table (table_columns data_results label_results) rows # evs"
  by (subst report_pages.simps) (simp split: prod.splits)

text \<open>
  Claim C9, as the code has it. When the merged table is empty the reporter prints
  nothing at all: no table and no pointer to a log file (the guard of line 159 returns).
  When the merged table is not empty and its first key is not the empty string, the
  reporter prints at least one table page and concludes with the line that announces the
  log files and the two log locations, whatever keys the operator presses.
\<close>

theorem error_report_conclusion:
  "(merge_results data_results label_results = [] \<longrightarrow>
      print_error_table env data_results label_results = []) \<and>
   (\<not> no_first_key (merge_results data_results label_results) \<longrightarrow>
      (\<exists>rows evs.
         print_error_table env data_results label_results =
           Print ''** Error Table **'' #
           Table (table_columns data_results label_results) rows # evs @
           [ConsoleLog ''Check the log file for more details'',
            ConsoleLog (''- '' @ simple_log_file env),
            ConsoleLog (''- '' @ full_log_file env)]))"
proof (intro conjI impI)
  assume "merge_results data_results label_results = []"
  then show "print_error_table env data_results label_results = []"
    by (simp add: print_error_table_def no_first_key_def)
next
  let ?results = "merge_results data_results label_results"
  assume first: "\<not> no_first_key ?results"
  obtain rows evs
    where "report_pages env data_results label_results (error_pages (length ?results)) 0 ?results
             = Table (table_columns data_results label_results) rows # evs"
    using report_pages_starts_with_table by blast
  with first show "\<exists>rows evs.
         print_error_table env data_results label_results =
           Print ''** Error Table **'' #
           Table (table_columns data_results label_results) rows # evs @
           [ConsoleLog ''Check the log file for more details'',
            ConsoleLog (''- '' @ simple_log_file env),
            ConsoleLog (''- '' @ full_log_file env)]"
    by (simp add: print_error_table_def Let_def)
qed

theorem error_report_conclusion_witness:
  "merge_results (Some []) None = [] \<and>
   print_error_table sample_env (Some []) None = [] \<and>
   \<not> no_first_key (merge_results (Some [(''a.png'', ''timeout'')]) None) \<and>
   (\<exists>rows evs.
      print_error_table sample_env (Some [(''a.png'', ''timeout'')]) None =
        Print ''** Error Table **'' # Table [''FILE NAME'', ''DATA UPLOAD''] rows # evs @
        [ConsoleLog ''Check the log file for more details'',
         ConsoleLog ''- simple.log'', ConsoleLog ''- spb.log''])"
proof -
  have empty: "merge_results (Some []) None = []"
    by (simp add: merge_results_def)
  have first: "\<not> no_first_key (merge_results (Some [(''a.png'', ''timeout'')]) None)"
    by (simp add: merge_results_def no_first_key_def)
  from error_report_conclusion [of "Some []" None sample_env] empty
  have "print_error_table sample_env (Some []) None = []" by blast
  moreover
  from error_report_conclusion [of "Some [(''a.png'', ''timeout'')]" None sample_env] first
  have "\<exists>rows evs.
      print_error_table sample_env (Some [(''a.png'', ''timeout'')]) None =
        Print ''** Error Table **'' # Table [''FILE NAME'', ''DATA UPLOAD''] rows # evs @
        [ConsoleLog ''Check the log file for more details'',
         ConsoleLog ''- simple.log'', ConsoleLog ''- spb.log'']"
    by (simp add: table_columns_def sample_env_def)
  ultimately show ?thesis using empty first by blast
qed

text \<open>
  Claim C9 as stated fails on an empty table: the run prints nothing, so it does not
  conclude with the two log locations.
\<close>

theorem error_report_empty_table_prints_no_log_pointers:
  "merge_results (Some []) (Some []) = [] \<and>
   print_error_table sample_env (Some []) (Some []) = [] \<and>
   ConsoleLog (''- '' @ simple_log_file sample_env)
     \<notin> set (print_error_table sample_env (Some []) (Some [])) \<and>
   ConsoleLog (''- '' @ full_log_file sample_env)
     \<notin> set (print_error_table sample_env (Some []) (Some []))"
  by (simp add: print_error_table_def merge_results_def no_first_key_def)

section \<open>The label upload task\<close>

text \<open>
  Claim C4. When the label file exists and the describe command answers with a label,
  the identity check of line 271 rejects (it records \<open>Described label does not match to
  upload.\<close> under the identity key and the task stops, with no update sent and no file
  read or written) exactly when the data key and the dataset of the described label both
  differ from the requested ones. In every other case, in particular when exactly one of
  the two differs, the task goes on with lines 278 to 299.
\<close>

theorem identity_check_needs_both_mismatches:
  assumes "isfile env label_path"
    and "describe env project_id
           (Some (dataset, join_dot (butlast (split_dot label_path)))) 1 1
         = Inr (Some described_label # others, n)"
  shows "(label_data_key described_label \<noteq> join_dot (butlast (split_dot label_path)) \<and>
          label_dataset described_label \<noteq> dataset \<longrightarrow>
            update_label env (label_path, project_id, dataset) s =
              (None,
               \<lparr>result = AList.update (join_dot (butlast (split_dot label_path)))
                           ''Described label does not match to upload.'' (result s),
                trace = trace s @
                  [DescribeLabel project_id
                     (Some (dataset, join_dot (butlast (split_dot label_path)))) 1 1,
                   SimpleLogError (join_dot (butlast (split_dot label_path)))
                     (Text ''Described label does not match to upload.'')]\<rparr>)) \<and>
         (label_data_key described_label = join_dot (butlast (split_dot label_path)) \<or>
          label_dataset described_label = dataset \<longrightarrow>
            update_label env (label_path, project_id, dataset) s =
              apply_local_label env label_path project_id
                (join_dot (butlast (split_dot label_path))) described_label
                (emit (DescribeLabel project_id
                   (Some (dataset, join_dot (butlast (split_dot label_path)))) 1 1) s))"
  using assms
  by (auto simp: update_label_def first_label_def set_error_result_def emit_def Let_def)

theorem identity_check_needs_both_mismatches_witness:
  "isfile sample_env ''a.png.json'' \<and>
   describe sample_env ''P1'' (Some (''other'', join_dot (butlast (split_dot ''a.png.json'')))) 1 1
     = Inr (Some sample_label # [], 1) \<and>
   label_data_key sample_label = join_dot (butlast (split_dot ''a.png.json'')) \<and>
   label_dataset sample_label \<noteq> ''other'' \<and>
   update_label sample_env (''a.png.json'', ''P1'', ''other'') empty_state =
     (None,
      \<lparr>result = [],
       trace = [DescribeLabel ''P1'' (Some (''other'', ''a.png'')) 1 1,
                ReadJson ''a.png.json'',
                UpdateLabel \<lparr>p_id = ''L1'', p_project_id = ''P1'', p_tags = JArr [JStr ''t''],
                             p_result = JObj []\<rparr>,
                WriteFile ''a.png.json'' ''{}'']\<rparr>) \<and>
   isfile sample_env ''b.png.json'' \<and>
   label_data_key sample_label \<noteq> join_dot (butlast (split_dot ''b.png.json'')) \<and>
   update_label sample_env (''b.png.json'', ''P1'', ''other'') empty_state =
     (None,
      \<lparr>result = [(''b.png'', ''Described label does not match to upload.'')],
       trace = [DescribeLabel ''P1'' (Some (''other'', ''b.png'')) 1 1,
                SimpleLogError ''b.png''
                  (Text ''Described label does not match to upload.'')]\<rparr>)"
proof -
  have pre_b: "isfile sample_env ''b.png.json''"
    "describe sample_env ''P1'' (Some (''other'', join_dot (butlast (split_dot ''b.png.json'')))) 1 1
       = Inr (Some sample_label # [], 1)"
    by (simp_all add: sample_env_def)
  have both: "label_data_key sample_label \<noteq> join_dot (butlast (split_dot ''b.png.json''))"
    "label_dataset sample_label \<noteq> ''other''"
    by (simp_all add: sample_label_def)
  from identity_check_needs_both_mismatches [OF pre_b, of empty_state] both
  have rejected: "update_label sample_env (''b.png.json'', ''P1'', ''other'') empty_state =
     (None,
      \<lparr>result = [(''b.png'', ''Described label does not match to upload.'')],
       trace = [DescribeLabel ''P1'' (Some (''other'', ''b.png'')) 1 1,
                SimpleLogError ''b.png''
                  (Text ''Described label does not match to upload.'')]\<rparr>)"
    by (simp add: empty_state_def)
  have pre: "isfile sample_env ''a.png.json''"
    "describe sample_env ''P1'' (Some (''other'', join_dot (butlast (split_dot ''a.png.json'')))) 1 1
       = Inr (Some sample_label # [], 1)"
    by (simp_all add: sample_env_def)
  have one: "label_data_key sample_label = join_dot (butlast (split_dot ''a.png.json''))"
    "label_dataset sample_label \<noteq> ''other''"
    by (simp_all add: sample_label_def)
  from identity_check_needs_both_mismatches [OF pre, of empty_state] one
  have "update_label sample_env (''a.png.json'', ''P1'', ''other'') empty_state =
          apply_local_label sample_env ''a.png.json'' ''P1''
            (join_dot (butlast (split_dot ''a.png.json''))) sample_label
            (emit (DescribeLabel ''P1''
               (Some (''other'', join_dot (butlast (split_dot ''a.png.json'')))) 1 1) empty_state)"
    by blast
  also have "\<dots> =
     (None,
      \<lparr>result = [],
       trace = [DescribeLabel ''P1'' (Some (''other'', ''a.png'')) 1 1,
                ReadJson ''a.png.json'',
                UpdateLabel \<lparr>p_id = ''L1'', p_project_id = ''P1'', p_tags = JArr [JStr ''t''],
                             p_result = JObj []\<rparr>,
                WriteFile ''a.png.json'' ''{}'']\<rparr>)"
    by (simp add: apply_local_label_def sample_env_def sample_label_def empty_state_def
          emit_def overlay_def Let_def)
  finally show ?thesis using pre one pre_b both rejected by simp
qed


text \<open>
  Claim C5, as the code has it. When the local file parses to a JSON object whose
  \<open>result\<close> entry is present and \<open>null\<close> (the label file exists, the described label
  passes the identity check and its tags are extracted), the task returns normally after
  reading the file: the result store is unchanged, nothing is logged, no update command
  is sent and the local file is not written.
\<close>

theorem null_result_is_a_silent_no_op:
  assumes "isfile env label_path"
    and "describe env project_id
           (Some (dataset, join_dot (butlast (split_dot label_path)))) 1 1
         = Inr (Some described_label # others, n)"
    and "label_data_key described_label = join_dot (butlast (split_dot label_path)) \<or>
         label_dataset described_label = dataset"
    and "collect (get_datas env) (label_tags described_label) = Inr datas"
    and "load_json env label_path = Inr (JObj kvs)"
    and "map_of kvs ''result'' = Some JNull"
  shows "update_label env (label_path, project_id, dataset) s =
           (None,
            \<lparr>result = result s,
             trace = trace s @
               [DescribeLabel project_id
                  (Some (dataset, join_dot (butlast (split_dot label_path)))) 1 1,
                ReadJson label_path]\<rparr>)"
  using assms
  by (auto simp: update_label_def first_label_def apply_local_label_def emit_def Let_def)

theorem null_result_is_a_silent_no_op_witness:
  "isfile (sample_env\<lparr>load_json := \<lambda>path. Inr (JObj [(''result'', JNull)])\<rparr>) ''a.png.json'' \<and>
   map_of [(''result'', JNull)] ''result'' = Some JNull \<and>
   update_label (sample_env\<lparr>load_json := \<lambda>path. Inr (JObj [(''result'', JNull)])\<rparr>)
       (''a.png.json'', ''P1'', ''ds'') empty_state =
     (None,
      \<lparr>result = [],
       trace = [DescribeLabel ''P1'' (Some (''ds'', ''a.png'')) 1 1, ReadJson ''a.png.json'']\<rparr>)"
proof -
  let ?env = "sample_env\<lparr>load_json := \<lambda>path. Inr (JObj [(''result'', JNull)])\<rparr>"
  have 1: "isfile ?env ''a.png.json''" by (simp add: sample_env_def)
  have 2: "describe ?env ''P1'' (Some (''ds'', join_dot (butlast (split_dot ''a.png.json'')))) 1 1
             = Inr (Some sample_label # [], 1)"
    by (simp add: sample_env_def)
  have 3: "label_data_key sample_label = join_dot (butlast (split_dot ''a.png.json'')) \<or>
           label_dataset sample_label = ''ds''"
    by (simp add: sample_label_def)
  have 4: "collect (get_datas ?env) (label_tags sample_label) = Inr [JStr ''t'']"
    by (simp add: sample_env_def sample_label_def)
  have 5: "load_json ?env ''a.png.json'' = Inr (JObj [(''result'', JNull)])"
    by (simp add: sample_env_def)
  have 6: "map_of [(''result'', JNull)] ''result'' = Some JNull" by simp
  from null_result_is_a_silent_no_op [OF 1 2 3 4 5 6, of empty_state] 1 6
  show ?thesis by (simp add: empty_state_def)
qed

text \<open>
  Claim C5 as stated fails for a file without a \<open>result\<close> entry: the subscript of line
  287 raises \<open>KeyError\<close>, which the handler of line 298 records under the identity key.
\<close>

theorem absent_result_is_recorded_as_error:
  "update_label (sample_env\<lparr>load_json := \<lambda>path. Inr (JObj [(''tags'', JArr [])])\<rparr>)
       (''a.png.json'', ''P1'', ''ds'') empty_state =
     (None,
      \<lparr>result = [(''a.png'', CHR 0x27 # ''result'' @ [CHR 0x27])],
       trace = [DescribeLabel ''P1'' (Some (''ds'', ''a.png'')) 1 1, ReadJson ''a.png.json'',
                SimpleLogError ''a.png'' (Text (CHR 0x27 # ''result'' @ [CHR 0x27]))]\<rparr>) \<and>
   map_of [(''tags'', JArr [])] ''result'' = None \<and>
   result (snd (update_label
                  (sample_env\<lparr>load_json := \<lambda>path. Inr (JObj [(''tags'', JArr [])])\<rparr>)
                  (''a.png.json'', ''P1'', ''ds'') empty_state)) \<noteq> []"
  by (simp add: update_label_def apply_local_label_def first_label_def set_error_result_def
        emit_def sample_env_def sample_label_def empty_state_def Let_def)

section \<open>The download task\<close>

text \<open>
  Claim C8. In the step for one label (after its directory has been created) the label
  file is written and the data file is fetched, both always and in this order, whatever
  the outcome of either. When neither fails the shared store is unchanged. When at
  least one fails, a single error record is stored under the key \<open>dataset/data_key\<close>; it
  has the entry \<open>label\<close> exactly when the label write failed and the entry \<open>data\<close>
  exactly when the data fetch failed, each with the string form of its exception. The
  step itself returns normally.
\<close>

theorem label_write_and_data_fetch_are_independent:
  assumes "makedirs env (dirname (local_path directory_path lbl)) = None"
  shows "\<exists>error logs.
           download_label env directory_path lbl s =
             (None,
              \<lparr>result =
                 (if write_file env (local_path directory_path lbl @ ''.json'') (label_toJson lbl)
                       = None \<and>
                     fetch env (label_data_url lbl) (local_path directory_path lbl) = None
                  then result s
                  else AList.update (label_dataset lbl @ ''/'' @ label_data_key lbl) error (result s)),
               trace = trace s @
                 [MakeDirs (dirname (local_path directory_path lbl)),
                  WriteFile (local_path directory_path lbl @ ''.json'') (label_toJson lbl),
                  HttpGet (label_data_url lbl) (local_path directory_path lbl)] @ logs\<rparr>) \<and>
           map_of error ''label'' =
             map_option str
               (write_file env (local_path directory_path lbl @ ''.json'') (label_toJson lbl)) \<and>
           map_of error ''data'' =
             map_option str (fetch env (label_data_url lbl) (local_path directory_path lbl)) \<and>
           keys error \<subseteq> {''label'', ''data''} \<and>
           set logs \<subseteq>
             {SimpleLogError (label_dataset lbl @ ''/'' @ label_data_key lbl) (Repr error)}"
proof -
  let ?path = "local_path directory_path lbl"
  let ?w = "write_file env (?path @ ''.json'') (label_toJson lbl)"
  let ?f = "fetch env (label_data_url lbl) ?path"
  let ?error1 = "case ?w of None \<Rightarrow> [] | Some e \<Rightarrow> [(''label'', str e)]"
  let ?error = "case ?f of None \<Rightarrow> ?error1 | Some e \<Rightarrow> AList.update ''data'' (str e) ?error1"
  let ?key = "label_dataset lbl @ ''/'' @ label_data_key lbl"
  let ?logs = "(if ?w \<noteq> None then [SimpleLogError ?key (Repr ?error)] else []) @
               (if ?f \<noteq> None then [SimpleLogError ?key (Repr ?error)] else [])"
  have run: "download_label env directory_path lbl s =
      (None,
       \<lparr>result = (if ?w = None \<and> ?f = None then result s
                  else AList.update ?key ?error (result s)),
        trace = trace s @
          [MakeDirs (dirname ?path), WriteFile (?path @ ''.json'') (label_toJson lbl),
           HttpGet (label_data_url lbl) ?path] @ ?logs\<rparr>)"
    using assms
    by (cases ?w; cases ?f) (simp_all add: download_label_def error_key_def emit_def Let_def)
  have l: "map_of ?error ''label'' = map_option str ?w"
    by (cases ?w; cases ?f) (simp_all add: update_conv')
  have d: "map_of ?error ''data'' = map_option str ?f"
    by (cases ?w; cases ?f) (simp_all add: update_conv')
  have k: "keys ?error \<subseteq> {''label'', ''data''}"
    by (cases ?w; cases ?f) (auto simp: keys_def)
  have g: "set ?logs \<subseteq> {SimpleLogError ?key (Repr ?error)}" by auto
  from run l d k g show ?thesis by blast
qed

theorem label_write_and_data_fetch_are_independent_witness:
  "makedirs failing_transfers (dirname (local_path ''out'' sample_label)) = None \<and>
   download_label failing_transfers ''out'' sample_label empty_state =
     (None,
      \<lparr>result = [(''ds/a.png'', [(''label'', ''disk full''), (''data'', ''404'')])],
       trace = [MakeDirs ''out/ds'', WriteFile ''out/ds/a.png.json'' ''{}'',
                HttpGet ''http://host/a.png'' ''out/ds/a.png'',
                SimpleLogError ''ds/a.png'' (Repr [(''label'', ''disk full''), (''data'', ''404'')]),
                SimpleLogError ''ds/a.png'' (Repr [(''label'', ''disk full''), (''data'', ''404'')])]\<rparr>) \<and>
   makedirs failing_transfers (dirname (local_path ''out'' rooted_label)) = None \<and>
   map fst (result (snd (download_label failing_transfers ''out'' rooted_label empty_state))) =
     [''cats//x/1.png''] \<and>
   take 3 (trace (snd (download_label failing_transfers ''out'' rooted_label empty_state))) =
     [MakeDirs ''out/cats/x'', WriteFile ''out/cats/x/1.png.json'' ''{}'',
      HttpGet ''http://host/a.png'' ''out/cats/x/1.png'']"
proof -
  have pre: "makedirs failing_transfers (dirname (local_path ''out'' sample_label)) = None"
    and pre': "makedirs failing_transfers (dirname (local_path ''out'' rooted_label)) = None"
    by (simp_all add: failing_transfers_def sample_env_def)
  from label_write_and_data_fetch_are_independent [OF pre, of empty_state]
  have "fst (download_label failing_transfers ''out'' sample_label empty_state) = None"
    by (elim exE conjE) simp
  moreover have "snd (download_label failing_transfers ''out'' sample_label empty_state) =
      \<lparr>result = [(''ds/a.png'', [(''label'', ''disk full''), (''data'', ''404'')])],
       trace = [MakeDirs ''out/ds'', WriteFile ''out/ds/a.png.json'' ''{}'',
                HttpGet ''http://host/a.png'' ''out/ds/a.png'',
                SimpleLogError ''ds/a.png'' (Repr [(''label'', ''disk full''), (''data'', ''404'')]),
                SimpleLogError ''ds/a.png'' (Repr [(''label'', ''disk full''), (''data'', ''404'')])]\<rparr>"
    by (simp add: download_label_def failing_transfers_def sample_env_def sample_label_def
          empty_state_def local_path_def path_join_def dirname_def error_key_def emit_def Let_def)
  moreover
  from label_write_and_data_fetch_are_independent [OF pre', of empty_state]
  have "map fst (result (snd (download_label failing_transfers ''out'' rooted_label empty_state)))
          = [''cats//x/1.png'']"
    by (elim exE conjE)
       (simp add: failing_transfers_def sample_env_def rooted_label_def sample_label_def
          empty_state_def)
  moreover
  from label_write_and_data_fetch_are_independent [OF pre', of empty_state]
  have "take 3 (trace (snd (download_label failing_transfers ''out'' rooted_label empty_state)))
          = [MakeDirs ''out/cats/x'', WriteFile ''out/cats/x/1.png.json'' ''{}'',
             HttpGet ''http://host/a.png'' ''out/cats/x/1.png'']"
    by (elim exE conjE)
       (simp add: rooted_label_def sample_label_def empty_state_def local_path_def
          path_join_def dirname_def)
  ultimately show ?thesis using pre pre' by (simp add: prod_eq_iff)
qed

section \<open>Faults of the tasks and of the probe\<close>

lemma upload_asset_returns_normally: "fst (upload_asset env args s) = None"
  by (simp add: upload_asset_def Let_def split: prod.splits option.splits)

lemma update_label_tag_fault_escapes:
  assumes "isfile env label_path"
    and "describe env project_id
           (Some (dataset, join_dot (butlast (split_dot label_path)))) 1 1
         = Inr (Some described_label # others, n)"
    and "label_data_key described_label = join_dot (butlast (split_dot label_path))"
    and "collect (get_datas env) (label_tags described_label) = Inl e"
  shows "update_label env (label_path, project_id, dataset) s =
           (Some e,
            emit (DescribeLabel project_id
                    (Some (dataset, join_dot (butlast (split_dot label_path)))) 1 1) s)"
  using assms
  by (simp add: update_label_def first_label_def apply_local_label_def Let_def)

text \<open>
  Claim C1 does not hold for the download task: the describe command of line 205 is
  outside every \<open>try\<close> block. When it raises, the exception leaves \<open>_download_worker\<close>
  and the shared result store is unchanged: no error record is written.
\<close>

theorem download_worker_describe_fault_escapes:
  assumes "describe env project_id None LABEL_DESCRIBE_PAGE_SIZE (page_idx + 1) = Inl e"
  shows "download_worker env (project_id, page_idx, directory_path) s =
           (Some e,
            \<lparr>result = result s,
             trace = trace s @
               [DescribeLabel project_id None LABEL_DESCRIBE_PAGE_SIZE (page_idx + 1)]\<rparr>)"
  using assms by (simp add: download_worker_def emit_def Let_def)

lemma unreachable_pages_download:
  "download unreachable_pages sample_project ''out'' True empty_world =
     (Some (Fault ''connection reset''),
      \<lparr>objects = (\<lambda>p. [])(0 := []), next_id = 1,
       out = [DescribeLabel ''P1'' None 1 1, DescribeLabel ''P1'' None 10 1]\<rparr>)"
proof -
  have pages: "page_length 25 = Inr 3"
    using page_length_below_2_53 [of 25] by simp
  have tasks: "[0 ..< 3] = [0, 1, 2::nat]"
    by (simp add: upt_rec)
  have refs: "replicate 3 p = [p, p, p]" for p :: nat
    by (simp add: numeral_3_eq_3)
  show ?thesis
    by (simp add: download_def count_labels_def download_pages_def pages tasks refs
          shared_results_def new_dict_def run_task_def download_worker_def say_def emit_def
          unreachable_pages_def sample_env_def sample_project_def empty_world_def
          LABEL_DESCRIBE_PAGE_SIZE_def Let_def)
qed

theorem download_worker_describe_fault_escapes_witness:
  "describe unreachable_pages ''P1'' None LABEL_DESCRIBE_PAGE_SIZE (0 + 1)
     = Inl (Fault ''connection reset'') \<and>
   download_worker unreachable_pages (''P1'', 0, ''out'') empty_state =
     (Some (Fault ''connection reset''),
      \<lparr>result = [], trace = [DescribeLabel ''P1'' None 10 1]\<rparr>) \<and>
   fst (download unreachable_pages sample_project ''out'' True empty_world)
     = Some (Fault ''connection reset'')"
proof -
  have pre: "describe unreachable_pages ''P1'' None LABEL_DESCRIBE_PAGE_SIZE (0 + 1)
               = Inl (Fault ''connection reset'')"
    by (simp add: unreachable_pages_def sample_env_def LABEL_DESCRIBE_PAGE_SIZE_def)
  from download_worker_describe_fault_escapes [OF pre, of "''out''" empty_state] pre
  show ?thesis
    by (simp add: empty_state_def LABEL_DESCRIBE_PAGE_SIZE_def unreachable_pages_download)
qed

section \<open>Success ratios\<close>

lemma percentage_of_all:
  assumes "n \<noteq> 0"
  shows "percentage n n = Inr (PyFloat 100)"
proof -
  have one: "fl 1 = 1" by code_simp
  have hundred: "fl 100 = 100" by code_simp
  from assms have q: "(of_int n :: rat) / of_int n = 1" by simp
  have r: "round_half_even 10000 = 10000"
    using round_half_even_of_int [of 10000] by simp
  have "py_truediv n n = Inr 1"
    using assms by (simp add: py_truediv_def q one Let_def)
  then show ?thesis
    by (simp add: percentage_def py_round2_def hundred r)
qed

lemma upload_data_ratio_of_empty_store:
  "guarded_percentage (length ([] :: string dict) \<noteq> 0) count n = Inr (PyInt 100)"
  by (simp add: guarded_percentage_def)

lemma upload_label_ratio_of_empty_store:
  "guarded_percentage (n \<noteq> 0) (int n - int (length ([] :: string dict))) (int n) =
     Inr (if n = 0 then PyInt 100 else PyFloat 100)"
  by (simp add: guarded_percentage_def percentage_of_all)

lemma download_ratio_of_empty_store:
  "label_count \<noteq> 0 \<Longrightarrow>
   percentage (label_count - int (length ([] :: string dict))) label_count = Inr (PyFloat 100)"
  by (simp add: percentage_of_all)

lemma say_say: "say evs' (say evs w) = say (evs @ evs') w"
  by (simp add: say_def)

lemma download_summary_of_zero_labels:
  "download_summary env 0 [] [] w = (Some ZeroDivisionError, say [Print ''** Result Summary **''] w)"
  by (simp add: download_summary_def summary_line_def percentage_def py_truediv_def Let_def)

text \<open>
  Claim C2 does not hold for a download: the ratios of lines 138 and 140 divide by
  \<open>label_count\<close> without a guard. When the probe reports the total 0, no page is
  requested, the summary header is printed, and the first ratio raises
  \<open>ZeroDivisionError\<close>, which leaves \<open>download\<close>; no summary line is printed.
\<close>

theorem download_of_zero_labels_raises:
  assumes "describe env (proj_id project) None 1 1 = Inr (labels, 0)"
  shows "download env project directory_path is_forced w =
           (Some ZeroDivisionError,
            say [DescribeLabel (proj_id project) None 1 1, Print ''** Result Summary **''] w)"
  using assms
  by (simp add: download_def count_labels_def download_summary_of_zero_labels say_say Let_def)

theorem download_of_zero_labels_raises_witness:
  "describe no_labels (proj_id sample_project) None 1 1 = Inr ([], 0) \<and>
   fst (download no_labels sample_project ''out'' True empty_world) = Some ZeroDivisionError \<and>
   out (snd (download no_labels sample_project ''out'' True empty_world)) =
     [DescribeLabel ''P1'' None 1 1, Print ''** Result Summary **'']"
proof -
  have pre: "describe no_labels (proj_id sample_project) None 1 1 = Inr ([], 0)"
    by (simp add: no_labels_def sample_env_def)
  from download_of_zero_labels_raises [OF pre, of "''out''" True empty_world] pre
  show ?thesis
    by (simp add: say_def empty_world_def sample_project_def)
qed

text \<open>
  Claim C3 does not hold: a download whose probe raises ends with an exception. When
  the root logger is enabled for \<open>WARNING\<close>, the logging call of line 106 raises
  \<open>TypeError\<close> inside the handler and the exception leaves \<open>_count_labels\<close> and
  \<open>download\<close> at once. When it is not, the total is taken as 0, and the unguarded
  ratio of line 138 raises \<open>ZeroDivisionError\<close> after the summary header. In both
  cases nothing is logged and no summary line or error table is printed.
\<close>

theorem probe_failure_ends_download_with_exception:
  assumes "describe env (proj_id project) None 1 1 = Inl e"
  shows "download env project directory_path is_forced w =
           (if warning_enabled env
            then (Some (TypeError (''Logger._log() got an unexpected keyword argument ''
                                    @ quoted ''exec_info'')),
                  say [DescribeLabel (proj_id project) None 1 1] w)
            else (Some ZeroDivisionError,
                  say [DescribeLabel (proj_id project) None 1 1,
                       Print ''** Result Summary **''] w))"
  using assms
  by (simp add: download_def count_labels_def download_summary_of_zero_labels say_say Let_def)

theorem probe_failure_ends_download_with_exception_witness:
  "describe probe_down (proj_id sample_project) None 1 1 = Inl (Fault ''timed out'') \<and>
   warning_enabled probe_down \<and>
   fst (download probe_down sample_project ''out'' True empty_world) =
     Some (TypeError (''Logger._log() got an unexpected keyword argument ''
                      @ quoted ''exec_info'')) \<and>
   out (snd (download probe_down sample_project ''out'' True empty_world)) =
     [DescribeLabel ''P1'' None 1 1] \<and>
   describe (probe_down\<lparr>warning_enabled := False\<rparr>) (proj_id sample_project) None 1 1
     = Inl (Fault ''timed out'') \<and>
   fst (download (probe_down\<lparr>warning_enabled := False\<rparr>) sample_project ''out'' True empty_world)
     = Some ZeroDivisionError \<and>
   out (snd (download (probe_down\<lparr>warning_enabled := False\<rparr>) sample_project ''out'' True
               empty_world)) =
     [DescribeLabel ''P1'' None 1 1, Print ''** Result Summary **'']"
proof -
  have pre: "describe probe_down (proj_id sample_project) None 1 1 = Inl (Fault ''timed out'')"
    and pre': "describe (probe_down\<lparr>warning_enabled := False\<rparr>) (proj_id sample_project) None 1 1
                 = Inl (Fault ''timed out'')"
    and on: "warning_enabled probe_down"
    by (simp_all add: probe_down_def sample_env_def)
  from probe_failure_ends_download_with_exception [OF pre, of "''out''" True empty_world]
       probe_failure_ends_download_with_exception [OF pre', of "''out''" True empty_world]
       pre pre' on
  show ?thesis
    by (simp add: say_def empty_world_def sample_project_def)
qed

section \<open>The shared result list\<close>

text \<open>
  A task of the source only adds records to the dictionary it is given: what it leaves
  in any dictionary is that dictionary overwritten with what it leaves in an empty one.
  The lemmas \<open>upload_asset_adds_records\<close>, \<open>update_label_adds_records\<close> and
  \<open>download_worker_adds_records\<close> prove this for the three task functions, and
  \<open>imap_on_one_reference\<close> follows the pool over a result list that repeats one reference.
\<close>

lemma imap_on_one_reference:
  assumes adds: "\<And>a s. map_of (result (snd (f a s))) =
                    map_of (result s) ++ map_of (result (snd (f a empty_state)))"
    and run: "imap f (zip items (replicate (length items) p)) w = (None, w')"
  shows "map_of (objects w' p) =
           foldl (\<lambda>m a. m ++ map_of (result (snd (f a empty_state)))) (map_of (objects w p)) items"
  using run
proof (induction items arbitrary: w)
  case Nil
  then show ?case by simp
next
  case (Cons a items)
  obtain r1 s1 where task: "f a \<lparr>result = objects w p, trace = out w\<rparr> = (r1, s1)"
    by (cases "f a \<lparr>result = objects w p, trace = out w\<rparr>")
  define w1 where "w1 = w\<lparr>objects := (objects w)(p := result s1), out := trace s1\<rparr>"
  from task have step: "run_task (f a) p w = (r1, w1)"
    by (simp add: run_task_def w1_def)
  have "imap f (zip (a # items) (replicate (length (a # items)) p)) w =
          (case r1 of
             Some e \<Rightarrow> (Some e, w1)
           | None \<Rightarrow> imap f (zip items (replicate (length items) p)) w1)"
    by (simp add: step split: option.splits)
  with Cons.prems have pool: "(case r1 of
             Some e \<Rightarrow> (Some e, w1)
           | None \<Rightarrow> imap f (zip items (replicate (length items) p)) w1) = (None, w')"
    by (simp only:)
  then have r1: "r1 = None" by (cases r1) simp_all
  with pool have rest: "imap f (zip items (replicate (length items) p)) w1 = (None, w')"
    by simp
  have "map_of (objects w1 p) = map_of (result (snd (f a \<lparr>result = objects w p, trace = out w\<rparr>)))"
    by (simp add: w1_def task)
  also have "\<dots> = map_of (objects w p) ++ map_of (result (snd (f a empty_state)))"
    using adds [of a "\<lparr>result = objects w p, trace = out w\<rparr>"] by simp
  finally have "map_of (objects w1 p) =
                  map_of (objects w p) ++ map_of (result (snd (f a empty_state)))" .
  with Cons.IH [OF rest] show ?case by simp
qed

lemma dom_foldl_map_add:
  "dom (foldl (\<lambda>m a. m ++ g a) m0 items) = dom m0 \<union> (\<Union>a \<in> set items. dom (g a))"
  by (induction items arbitrary: m0) auto

lemma keys_dom: "keys d = dom (map_of d)"
  by (simp add: keys_def dom_map_of_conv_image_fst)

lemma imap_returns_normally:
  assumes "\<And>a s. fst (f a s) = None"
  shows "fst (imap f tasks w) = None"
proof (induction tasks arbitrary: w)
  case Nil
  show ?case by simp
next
  case (Cons t tasks)
  obtain a p where t: "t = (a, p)" by (cases t)
  obtain r1 w1 where step: "run_task (f a) p w = (r1, w1)" by (cases "run_task (f a) p w")
  then have "r1 = None"
    using assms [of a "\<lparr>result = objects w p, trace = out w\<rparr>"]
    by (auto simp: run_task_def split: prod.splits)
  with Cons.IH [of w1] t step show ?case by simp
qed

lemma run_batch_returns_normally:
  assumes "\<And>a s. fst (f a s) = None"
  shows "fst (run_batch f banner items w) = None"
proof -
  have "r = None" if "imap f tasks w1 = (r, w2)" for tasks w1 r w2
    using imap_returns_normally [of f tasks w1, OF assms] that by simp
  then show ?thesis
    by (auto simp: run_batch_def split: prod.splits)
qed

lemma run_batch_one_dictionary:
  assumes adds: "\<And>a s. map_of (result (snd (f a s))) =
                    map_of (result s) ++ map_of (result (snd (f a empty_state)))"
    and "items \<noteq> []"
    and run: "run_batch f banner items w = (None, results, w')"
  shows "results = replicate (length items) (next_id w) \<and>
         first_result results = Inr (next_id w) \<and>
         map_of (objects w' (next_id w)) =
           foldl (\<lambda>m a. m ++ map_of (result (snd (f a empty_state)))) Map.empty items \<and>
         keys (objects w' (next_id w)) =
           (\<Union>a \<in> set items. keys (result (snd (f a empty_state))))"
proof -
  let ?p = "next_id w"
  let ?w1 = "say banner (w\<lparr>objects := (objects w)(?p := []), next_id := Suc ?p\<rparr>)"
  from assms(2) run have results: "results = replicate (length items) ?p"
    and pool: "imap f (zip items (replicate (length items) ?p)) ?w1 = (None, w')"
    by (simp_all add: run_batch_def shared_results_def new_dict_def split: prod.splits)
  from assms(2) have first: "first_result results = Inr ?p"
    by (cases items) (simp_all add: results first_result_def)
  from imap_on_one_reference [of f, OF adds pool]
  have m: "map_of (objects w' ?p) =
             foldl (\<lambda>m a. m ++ map_of (result (snd (f a empty_state)))) Map.empty items"
    by (simp add: say_def)
  have "keys (objects w' ?p) = (\<Union>a \<in> set items. keys (result (snd (f a empty_state))))"
    by (simp add: keys_dom m dom_foldl_map_add)
  with results first m show ?thesis by simp
qed

lemma upload_asset_adds_records:
  "map_of (result (snd (upload_asset env a s))) =
     map_of (result s) ++ map_of (result (snd (upload_asset env a empty_state)))"
  by (cases a)
     (simp add: upload_asset_def set_error_result_def emit_def empty_state_def update_conv'
        Let_def split: option.splits)

lemma update_label_adds_records:
  "map_of (result (snd (update_label env a s))) =
     map_of (result s) ++ map_of (result (snd (update_label env a empty_state)))"
  by (cases a)
     (simp add: update_label_def apply_local_label_def set_error_result_def emit_def
        empty_state_def update_conv' Let_def
        split: option.splits sum.splits prod.splits)


lemma download_label_write:
  "\<exists>r W. \<forall>s. fst (download_label env directory_path lbl s) = r \<and>
           result (snd (download_label env directory_path lbl s)) =
             (case W of None \<Rightarrow> result s | Some (k, v) \<Rightarrow> AList.update k v (result s))"
proof (cases "makedirs env (dirname (local_path directory_path lbl))")
  case (Some e)
  then have "\<forall>s. fst (download_label env directory_path lbl s) = Some e \<and>
           result (snd (download_label env directory_path lbl s)) =
             (case None of None \<Rightarrow> result s | Some (k, v) \<Rightarrow> AList.update k v (result s))"
    by (simp add: download_label_def emit_def Let_def)
  then show ?thesis by blast
next
  case None
  let ?path = "local_path directory_path lbl"
  let ?w = "write_file env (?path @ ''.json'') (label_toJson lbl)"
  let ?f = "fetch env (label_data_url lbl) ?path"
  let ?error1 = "case ?w of None \<Rightarrow> [] | Some e \<Rightarrow> [(''label'', str e)]"
  let ?error = "case ?f of None \<Rightarrow> ?error1 | Some e \<Rightarrow> AList.update ''data'' (str e) ?error1"
  let ?W = "if ?w = None \<and> ?f = None then None else Some (error_key lbl, ?error)"
  from None have "\<forall>s. fst (download_label env directory_path lbl s) = None \<and>
           result (snd (download_label env directory_path lbl s)) =
             (case ?W of None \<Rightarrow> result s | Some (k, v) \<Rightarrow> AList.update k v (result s))"
    by (cases ?w; cases ?f) (simp_all add: download_label_def emit_def Let_def)
  then show ?thesis by blast
qed

lemma download_labels_adds_records:
  "map_of (result (snd (download_labels env directory_path ls s))) =
     map_of (result s) ++
     map_of (result (snd (download_labels env directory_path ls \<lparr>result = [], trace = t\<rparr>)))"
proof (induction ls arbitrary: s t)
  case Nil
  show ?case by simp
next
  case (Cons l ls)
  show ?case
  proof (cases l)
    case None
    then show ?thesis by simp
  next
    case (Some lbl)
    let ?e = "\<lparr>result = ([] :: string dict dict), trace = t\<rparr>"
    obtain r W where step: "\<And>s. fst (download_label env directory_path lbl s) = r"
      "\<And>s. result (snd (download_label env directory_path lbl s)) =
             (case W of None \<Rightarrow> result s | Some (k, v) \<Rightarrow> AList.update k v (result s))"
      using download_label_write [of env directory_path lbl] by blast
    obtain s1 where s1: "download_label env directory_path lbl s = (r, s1)"
      using step(1) [of s] by (cases "download_label env directory_path lbl s") simp
    obtain e1 where e1: "download_label env directory_path lbl ?e = (r, e1)"
      using step(1) [of ?e] by (cases "download_label env directory_path lbl ?e") simp
    from step(2) [of s] s1
    have rs1: "result s1 = (case W of None \<Rightarrow> result s | Some (k, v) \<Rightarrow> AList.update k v (result s))"
      by simp
    from step(2) [of ?e] e1
    have re1: "result e1 = (case W of None \<Rightarrow> [] | Some (k, v) \<Rightarrow> AList.update k v [])"
      by (cases W) auto
    have head: "map_of (result s1) = map_of (result s) ++ map_of (result e1)"
      by (cases W) (auto simp: rs1 re1 update_conv')
    show ?thesis
    proof (cases r)
      case (Some e)
      with Some s1 e1 head \<open>l = Some lbl\<close> show ?thesis by simp
    next
      case None
      have a: "map_of (result (snd (download_labels env directory_path ls s1))) =
                 map_of (result s1) ++
                 map_of (result (snd (download_labels env directory_path ls ?e)))"
        by (rule Cons.IH)
      have b: "map_of (result (snd (download_labels env directory_path ls e1))) =
                 map_of (result e1) ++
                 map_of (result (snd (download_labels env directory_path ls ?e)))"
        by (rule Cons.IH)
      from None s1 e1 \<open>l = Some lbl\<close> a b head show ?thesis
        by (simp add: map_add_assoc)
    qed
  qed
qed

lemma download_worker_adds_records:
  "map_of (result (snd (download_worker env a s))) =
     map_of (result s) ++ map_of (result (snd (download_worker env a empty_state)))"
proof -
  obtain project_id page_idx directory_path where a: "a = (project_id, page_idx, directory_path)"
    by (cases a)
  show ?thesis
  proof (cases "describe env project_id None LABEL_DESCRIBE_PAGE_SIZE (page_idx + 1)")
    case (Inl e)
    then show ?thesis
      by (simp add: a download_worker_def emit_def empty_state_def Let_def)
  next
    case (Inr answer)
    obtain labels n where answer: "answer = (labels, n)" by (cases answer)
    let ?ev = "DescribeLabel project_id None LABEL_DESCRIBE_PAGE_SIZE (page_idx + 1)"
    have "map_of (result (snd (download_labels env directory_path labels (emit ?ev s)))) =
            map_of (result (emit ?ev s)) ++
            map_of (result (snd (download_labels env directory_path labels
                                   \<lparr>result = [], trace = [?ev]\<rparr>)))"
      by (rule download_labels_adds_records)
    with Inr answer show ?thesis
      by (simp add: a download_worker_def emit_def empty_state_def Let_def)
  qed
qed


lemma first_result_replicate:
  "first_result (replicate n p) = (if n = 0 then Inl IndexError else Inr p)"
  by (cases n) (simp_all add: first_result_def)

lemma download_pages_one_dictionary:
  assumes pl: "page_length label_count = Inr pages"
    and run: "download_pages env project directory_path is_forced label_count w =
                (Inr (Some (data_results, label_results)), w')"
  shows "0 < pages \<and>
         (data_results, label_results) = split_results (objects w' (next_id w)) ([], []) \<and>
         map_of (objects w' (next_id w)) =
           foldl (\<lambda>m i. m ++ map_of (result (snd (download_worker env
                    (proj_id project, int i, directory_path) empty_state))))
             Map.empty [0 ..< nat pages] \<and>
         keys (objects w' (next_id w)) =
           (\<Union>i \<in> {0 ..< nat pages}. keys (result (snd (download_worker env
                    (proj_id project, int i, directory_path) empty_state))))"
proof -
  let ?p = "next_id w"
  let ?w0 = "if is_forced then w else say [Confirm] w"
  let ?w1 = "?w0\<lparr>objects := (objects ?w0)(?p := []), next_id := Suc ?p\<rparr>"
  let ?items = "map (\<lambda>i. (proj_id project, int i, directory_path)) [0 ..< nat pages]"
  from run pl have "\<exists>w2. \<not> pages < 0 \<and> nat pages \<noteq> 0 \<and> w' = w2 \<and>
      imap (download_worker env) (zip ?items (replicate (nat pages) ?p)) ?w1 = (None, w2) \<and>
      (data_results, label_results) = split_results (objects w2 ?p) ([], [])"
    by (auto simp: download_pages_def shared_results_def new_dict_def say_def Let_def
          first_result_replicate
          split: if_splits prod.splits option.splits sum.splits)
  then obtain w2 where nonneg: "\<not> pages < 0" and some: "nat pages \<noteq> 0" and w': "w' = w2"
    and pool: "imap (download_worker env) (zip ?items (replicate (nat pages) ?p)) ?w1 = (None, w2)"
    and split: "(data_results, label_results) = split_results (objects w2 ?p) ([], [])"
    by blast
  from some have pos: "0 < pages" by simp
  have len: "length ?items = nat pages" by simp
  from pool have "imap (download_worker env) (zip ?items (replicate (length ?items) ?p)) ?w1
                      = (None, w2)"
    by (simp only: len)
  from imap_on_one_reference [of "download_worker env", OF download_worker_adds_records this]
  have "map_of (objects w2 ?p) =
          foldl (\<lambda>m a. m ++ map_of (result (snd (download_worker env a empty_state))))
            Map.empty ?items"
    by simp
  then have m: "map_of (objects w' ?p) =
           foldl (\<lambda>m i. m ++ map_of (result (snd (download_worker env
                    (proj_id project, int i, directory_path) empty_state))))
             Map.empty [0 ..< nat pages]"
    by (simp add: w' foldl_map)
  have "keys (objects w' ?p) =
           (\<Union>i \<in> {0 ..< nat pages}. keys (result (snd (download_worker env
                    (proj_id project, int i, directory_path) empty_state))))"
    by (simp add: keys_dom m dom_foldl_map_add)
  with pos split m w' show ?thesis by simp
qed


text \<open>
  Claim C10. Every batch builds its result list as \<open>manager.list([manager.dict()] * n)\<close>
  and gives element \<open>i\<close> to task \<open>i\<close>. For a data upload and for a label upload
  (\<open>run_batch\<close>, lines 45 to 48, 57 to 59 and 83 to 85) with at least one item, once the
  pool has ended without an exception: the list is the one new reference repeated \<open>n\<close>
  times, \<open>results[0]\<close> is that reference, and the dictionary it refers to holds exactly
  the records of all tasks. Its keys are the union, over the tasks, of the keys that the
  task records (what the task leaves in an empty dictionary), and every key has the
  record of the last task that wrote it. The pool of a data upload never ends with an
  exception. The same holds for the page tasks of a download that reaches its summary
  (\<open>download_pages\<close>, lines 119 to 131): there is at least one page, the dictionary at
  index 0 holds exactly the records of all page tasks, and the two result dictionaries
  of the summary are split from it. So reading index 0 alone loses no error record.
\<close>

theorem batch_results_alias_one_dictionary:
  "(assets \<noteq> [] \<and> run_batch (upload_asset env) banner assets w = (r, results, w') \<longrightarrow>
      r = None \<and>
      results = replicate (length assets) (next_id w) \<and>
      first_result results = Inr (next_id w) \<and>
      map_of (objects w' (next_id w)) =
        foldl (\<lambda>m a. m ++ map_of (result (snd (upload_asset env a empty_state))))
          Map.empty assets \<and>
      keys (objects w' (next_id w)) =
        (\<Union>a \<in> set assets. keys (result (snd (upload_asset env a empty_state)))))
   \<and>
   (label_tasks \<noteq> [] \<and>
    run_batch (update_label env) banner label_tasks w = (None, results, w') \<longrightarrow>
      results = replicate (length label_tasks) (next_id w) \<and>
      first_result results = Inr (next_id w) \<and>
      map_of (objects w' (next_id w)) =
        foldl (\<lambda>m a. m ++ map_of (result (snd (update_label env a empty_state))))
          Map.empty label_tasks \<and>
      keys (objects w' (next_id w)) =
        (\<Union>a \<in> set label_tasks. keys (result (snd (update_label env a empty_state))))) \<and>
   (page_length label_count = Inr pages \<and>
    download_pages env project directory_path is_forced label_count dw =
      (Inr (Some (data_results, label_results)), dw') \<longrightarrow>
      0 < pages \<and>
      (data_results, label_results) = split_results (objects dw' (next_id dw)) ([], []) \<and>
      map_of (objects dw' (next_id dw)) =
        foldl (\<lambda>m i. m ++ map_of (result (snd (download_worker env
                 (proj_id project, int i, directory_path) empty_state))))
          Map.empty [0 ..< nat pages] \<and>
      keys (objects dw' (next_id dw)) =
        (\<Union>i \<in> {0 ..< nat pages}. keys (result (snd (download_worker env
                 (proj_id project, int i, directory_path) empty_state)))))"
  (is "?uploads \<and> ?labels \<and> ?downloads")
proof -
  have uploads: ?uploads
  proof (rule impI)
    assume "assets \<noteq> [] \<and> run_batch (upload_asset env) banner assets w = (r, results, w')"
    then have a: "assets \<noteq> []"
      and r': "run_batch (upload_asset env) banner assets w = (r, results, w')" by simp_all
    from run_batch_returns_normally [of "upload_asset env" banner assets w] r'
    have none: "r = None" by (simp add: upload_asset_returns_normally)
    with r' have r: "run_batch (upload_asset env) banner assets w = (None, results, w')"
      by simp
    from run_batch_one_dictionary [of "upload_asset env", OF upload_asset_adds_records a r] none
    show "r = None \<and> results = replicate (length assets) (next_id w) \<and>
      first_result results = Inr (next_id w) \<and>
      map_of (objects w' (next_id w)) =
        foldl (\<lambda>m a. m ++ map_of (result (snd (upload_asset env a empty_state))))
          Map.empty assets \<and>
      keys (objects w' (next_id w)) =
        (\<Union>a \<in> set assets. keys (result (snd (upload_asset env a empty_state))))"
      by blast
  qed
  have labels: ?labels
  proof (rule impI)
    assume "label_tasks \<noteq> [] \<and>
          run_batch (update_label env) banner label_tasks w = (None, results, w')"
  then have a: "label_tasks \<noteq> []"
    and r: "run_batch (update_label env) banner label_tasks w = (None, results, w')"
    by simp_all
  from run_batch_one_dictionary [of "update_label env", OF update_label_adds_records a r]
  show "results = replicate (length label_tasks) (next_id w) \<and>
      first_result results = Inr (next_id w) \<and>
      map_of (objects w' (next_id w)) =
        foldl (\<lambda>m a. m ++ map_of (result (snd (update_label env a empty_state))))
          Map.empty label_tasks \<and>
      keys (objects w' (next_id w)) =
        (\<Union>a \<in> set label_tasks. keys (result (snd (update_label env a empty_state))))" .
  qed
  have downloads: ?downloads
  proof (rule impI)
    assume "page_length label_count = Inr pages \<and>
    download_pages env project directory_path is_forced label_count dw =
      (Inr (Some (data_results, label_results)), dw')"
  then have pl: "page_length label_count = Inr pages"
    and r: "download_pages env project directory_path is_forced label_count dw =
      (Inr (Some (data_results, label_results)), dw')" by simp_all
  from download_pages_one_dictionary [OF pl r]
  show "0 < pages \<and>
      (data_results, label_results) = split_results (objects dw' (next_id dw)) ([], []) \<and>
      map_of (objects dw' (next_id dw)) =
        foldl (\<lambda>m i. m ++ map_of (result (snd (download_worker env
                 (proj_id project, int i, directory_path) empty_state))))
          Map.empty [0 ..< nat pages] \<and>
      keys (objects dw' (next_id dw)) =
        (\<Union>i \<in> {0 ..< nat pages}. keys (result (snd (download_worker env
                 (proj_id project, int i, directory_path) empty_state))))" .
  qed
  from uploads labels downloads show ?thesis by blast
qed


theorem batch_results_alias_one_dictionary_witness:
  "sample_assets \<noteq> [] \<and>
   fst (run_batch (upload_asset partly_failing) [Print ''Uploading data:''] sample_assets
          (empty_world :: string world)) = None \<and>
   fst (snd (run_batch (upload_asset partly_failing) [Print ''Uploading data:''] sample_assets
               (empty_world :: string world))) = [0, 0, 0] \<and>
   keys (objects (snd (snd (run_batch (upload_asset partly_failing) [Print ''Uploading data:'']
                              sample_assets (empty_world :: string world)))) 0) =
     {''b.png'', ''c.png''} \<and>
   sample_label_tasks \<noteq> [] \<and>
   fst (run_batch (update_label partly_failing) [] sample_label_tasks
          (empty_world :: string world)) = None \<and>
   keys (objects (snd (snd (run_batch (update_label partly_failing) [] sample_label_tasks
                              (empty_world :: string world)))) 0) = {''b.png''} \<and>
   page_length 25 = Inr 3 \<and>
   fst (download_pages partly_failing sample_project ''out'' True 25 empty_world) =
     Inr (Some ([(''ds/x'', ''404''), (''ds/y'', ''404''), (''ds/z'', ''404'')], [])) \<and>
   keys (objects (snd (download_pages partly_failing sample_project ''out'' True 25
                         empty_world)) 0) = {''ds/x'', ''ds/y'', ''ds/z''}"
proof -
  let ?w = "empty_world :: string world"
  let ?dw = "empty_world :: string dict world"
  let ?U = "run_batch (upload_asset partly_failing) [Print ''Uploading data:''] sample_assets ?w"
  let ?L = "run_batch (update_label partly_failing) [] sample_label_tasks ?w"
  let ?D = "download_pages partly_failing sample_project ''out'' True 25 ?dw"
  have zero: "next_id ?w = 0" "next_id ?dw = 0" by (simp_all add: empty_world_def)
  have a1: "sample_assets \<noteq> []" by (simp add: sample_assets_def)
  have u: "fst ?U = None"
    by (simp add: run_batch_def sample_assets_def shared_results_def new_dict_def run_task_def
          upload_asset_def partly_failing_def sample_env_def set_error_result_def emit_def
          say_def empty_world_def Let_def)
  then have hu: "?U = (None, fst (snd ?U), snd (snd ?U))" by (simp add: prod_eq_iff)
  note upload = batch_results_alias_one_dictionary
    [where env = partly_failing and assets = sample_assets
       and banner = "[Print ''Uploading data:'']" and w = ?w and r = None
       and results = "fst (snd ?U)" and w' = "snd (snd ?U)", THEN conjunct1]
  from upload a1 hu
  have "fst (snd ?U) = replicate (length sample_assets) (next_id ?w)"
    and "keys (objects (snd (snd ?U)) (next_id ?w)) =
          (\<Union>a \<in> set sample_assets. keys (result (snd (upload_asset partly_failing a empty_state))))"
    by blast+
  then have u1: "fst (snd ?U) = [0, 0, 0]"
    and u2: "keys (objects (snd (snd ?U)) 0) = {''b.png'', ''c.png''}"
    by (auto simp: zero sample_assets_def keys_def upload_asset_def partly_failing_def
          sample_env_def set_error_result_def emit_def empty_state_def Let_def)
  have a2: "sample_label_tasks \<noteq> []" by (simp add: sample_label_tasks_def)
  have l: "fst ?L = None"
    by (simp add: run_batch_def sample_label_tasks_def shared_results_def new_dict_def
          run_task_def update_label_def apply_local_label_def first_label_def overlay_def
          partly_failing_def sample_env_def sample_label_def set_error_result_def emit_def
          say_def empty_world_def Let_def)
  then have hl: "?L = (None, fst (snd ?L), snd (snd ?L))" by (simp add: prod_eq_iff)
  note labels = batch_results_alias_one_dictionary
    [where env = partly_failing and label_tasks = sample_label_tasks
       and banner = "[]" and w = ?w
       and results = "fst (snd ?L)" and w' = "snd (snd ?L)", THEN conjunct2, THEN conjunct1]
  from labels a2 hl
  have "keys (objects (snd (snd ?L)) (next_id ?w)) =
          (\<Union>a \<in> set sample_label_tasks.
             keys (result (snd (update_label partly_failing a empty_state))))"
    by blast
  then have l2: "keys (objects (snd (snd ?L)) 0) = {''b.png''}"
    by (auto simp: zero sample_label_tasks_def keys_def update_label_def apply_local_label_def
          first_label_def overlay_def partly_failing_def sample_env_def sample_label_def
          set_error_result_def emit_def empty_state_def Let_def)
  have pages: "page_length 25 = Inr 3"
    using page_length_below_2_53 [of 25] by simp
  have tasks: "[0 ..< 3] = [0, 1, 2::nat]"
    by (simp add: upt_rec)
  have refs: "replicate 3 p = [p, p, p]" for p :: nat
    by (simp add: numeral_3_eq_3)
  have d: "fst ?D = Inr (Some ([(''ds/x'', ''404''), (''ds/y'', ''404''), (''ds/z'', ''404'')], []))"
    by (simp add: download_pages_def pages tasks refs shared_results_def new_dict_def
          run_task_def download_worker_def download_label_def local_path_def path_join_def
          dirname_def error_key_def first_result_def partly_failing_def sample_env_def
          sample_label_def sample_project_def emit_def say_def empty_world_def
          LABEL_DESCRIBE_PAGE_SIZE_def Let_def)
  then have hd: "?D = (Inr (Some ([(''ds/x'', ''404''), (''ds/y'', ''404''), (''ds/z'', ''404'')],
                                   [])), snd ?D)"
    by (simp add: prod_eq_iff)
  note downloads = batch_results_alias_one_dictionary
    [where env = partly_failing and project = sample_project and directory_path = "''out''"
       and is_forced = True and label_count = 25 and pages = 3 and dw = ?dw
       and data_results = "[(''ds/x'', ''404''), (''ds/y'', ''404''), (''ds/z'', ''404'')]"
       and label_results = "[]" and dw' = "snd ?D", THEN conjunct2, THEN conjunct2]
  from downloads pages hd
  have "keys (objects (snd ?D) (next_id ?dw)) =
          (\<Union>i \<in> {0 ..< nat 3}. keys (result (snd (download_worker partly_failing
                 (proj_id sample_project, int i, ''out'') empty_state))))"
    by blast
  moreover have "{0 ..< nat 3} = {0, 1, 2::nat}" by auto
  ultimately have d2: "keys (objects (snd ?D) 0) = {''ds/x'', ''ds/y'', ''ds/z''}"
    by (auto simp: zero keys_def download_worker_def download_label_def local_path_def
          path_join_def dirname_def error_key_def partly_failing_def sample_env_def
          sample_label_def sample_project_def emit_def empty_state_def
          LABEL_DESCRIBE_PAGE_SIZE_def Let_def)
  from a1 u u1 u2 a2 l l2 pages d d2 show ?thesis by blast
qed

end
